theory Spec2Isabelle
  imports Complex_Main
begin

section \<open>Python strings\<close>

text \<open>
  A Python \<open>str\<close> is a sequence of code points. The model uses \<open>string\<close> and reads
  each \<open>char\<close> as the code point of the same number, U+0000 to U+00FF, so the degree
  sign of \<open>22\<degree>C\<close> is the single character \<open>CHR 0xB0\<close>, as it is one code point in
  Python. The functions below are \<open>str.lower\<close>, the \<open>in\<close> test on strings and the
  character classes \<open>\s\<close> and \<open>\d\<close> on that range of code points, where they stay in
  the range.
\<close>

definition ascii_upper :: string where
  "ascii_upper = ''ABCDEFGHIJKLMNOPQRSTUVWXYZ''"

definition ascii_lower :: string where
  "ascii_lower = ''abcdefghijklmnopqrstuvwxyz''"

definition latin_upper :: string where
  "latin_upper =
     [CHR 0xC0, CHR 0xC1, CHR 0xC2, CHR 0xC3, CHR 0xC4, CHR 0xC5, CHR 0xC6, CHR 0xC7,
      CHR 0xC8, CHR 0xC9, CHR 0xCA, CHR 0xCB, CHR 0xCC, CHR 0xCD, CHR 0xCE, CHR 0xCF,
      CHR 0xD0, CHR 0xD1, CHR 0xD2, CHR 0xD3, CHR 0xD4, CHR 0xD5, CHR 0xD6,
      CHR 0xD8, CHR 0xD9, CHR 0xDA, CHR 0xDB, CHR 0xDC, CHR 0xDD, CHR 0xDE]"

definition latin_lower :: string where
  "latin_lower =
     [CHR 0xE0, CHR 0xE1, CHR 0xE2, CHR 0xE3, CHR 0xE4, CHR 0xE5, CHR 0xE6, CHR 0xE7,
      CHR 0xE8, CHR 0xE9, CHR 0xEA, CHR 0xEB, CHR 0xEC, CHR 0xED, CHR 0xEE, CHR 0xEF,
      CHR 0xF0, CHR 0xF1, CHR 0xF2, CHR 0xF3, CHR 0xF4, CHR 0xF5, CHR 0xF6,
      CHR 0xF8, CHR 0xF9, CHR 0xFA, CHR 0xFB, CHR 0xFC, CHR 0xFD, CHR 0xFE]"

definition lower_char :: "char \<Rightarrow> char" where
  "lower_char c =
     (case map_of (zip (ascii_upper @ latin_upper) (ascii_lower @ latin_lower)) c of
        Some d \<Rightarrow> d
      | None \<Rightarrow> c)"

definition lower :: "string \<Rightarrow> string" where
  "lower s = map lower_char s"

definition is_space :: "char \<Rightarrow> bool" where
  "is_space c = (c \<in> set [CHR 0x09, CHR 0x0A, CHR 0x0B, CHR 0x0C, CHR 0x0D,
                           CHR 0x1C, CHR 0x1D, CHR 0x1E, CHR 0x1F, CHR 0x20,
                           CHR 0x85, CHR 0xA0])"

definition is_digit :: "char \<Rightarrow> bool" where
  "is_digit c = (c \<in> set ''0123456789'')"

fun starts_with :: "string \<Rightarrow> string \<Rightarrow> bool" where
  "starts_with [] s = True"
| "starts_with (p # ps) [] = False"
| "starts_with (p # ps) (c # cs) = (p = c \<and> starts_with ps cs)"

text \<open>\<open>contains sub s\<close> is Python's \<open>sub in s\<close>.\<close>

fun contains :: "string \<Rightarrow> string \<Rightarrow> bool" where
  "contains sub [] = (sub = [])"
| "contains sub (c # cs) = (starts_with sub (c # cs) \<or> contains sub cs)"

subsection \<open>Upper case\<close>

text \<open>
  \<open>str.upper\<close> leaves the range: the micro sign U+00B5 becomes the Greek capital mu
  U+039C and the y with diaeresis U+00FF becomes U+0178; and it can lengthen a string:
  the sharp s U+00DF becomes \<open>SS\<close>. A \<open>uchar\<close> is a code point up to U+00FF or one of
  U+039C, U+0178 and U+03BC (the lower case of U+039C); \<open>lower\<close>, \<open>upper\<close> and \<open>strip\<close> of
  Python map strings of these code points to strings of these code points, as the
  functions below do.
\<close>

datatype uchar = Latin char | Capital_Mu | Capital_Y_Diaeresis | Small_Mu

type_synonym ustring = "uchar list"

definition ustr :: "string \<Rightarrow> ustring" where
  "ustr s = map Latin s"

definition upper_char :: "char \<Rightarrow> ustring" where
  "upper_char c =
     (if c = CHR 0xDF then [Latin (CHR ''S''), Latin (CHR ''S'')]
      else if c = CHR 0xB5 then [Capital_Mu]
      else if c = CHR 0xFF then [Capital_Y_Diaeresis]
      else case map_of (zip (ascii_lower @ latin_lower) (ascii_upper @ latin_upper)) c of
             Some d \<Rightarrow> [Latin d]
           | None \<Rightarrow> [Latin c])"

fun uchar_upper :: "uchar \<Rightarrow> ustring" where
  "uchar_upper (Latin c) = upper_char c"
| "uchar_upper Capital_Mu = [Capital_Mu]"
| "uchar_upper Capital_Y_Diaeresis = [Capital_Y_Diaeresis]"
| "uchar_upper Small_Mu = [Capital_Mu]"

fun uchar_lower :: "uchar \<Rightarrow> uchar" where
  "uchar_lower (Latin c) = Latin (lower_char c)"
| "uchar_lower Capital_Mu = Small_Mu"
| "uchar_lower Capital_Y_Diaeresis = Latin (CHR 0xFF)"
| "uchar_lower Small_Mu = Small_Mu"

fun uchar_space :: "uchar \<Rightarrow> bool" where
  "uchar_space (Latin c) = is_space c"
| "uchar_space Capital_Mu = False"
| "uchar_space Capital_Y_Diaeresis = False"
| "uchar_space Small_Mu = False"

definition ulower :: "ustring \<Rightarrow> ustring" where
  "ulower s = map uchar_lower s"

definition uupper :: "ustring \<Rightarrow> ustring" where
  "uupper s = concat (map uchar_upper s)"

definition ustrip :: "ustring \<Rightarrow> ustring" where
  "ustrip s = rev (dropWhile uchar_space (rev (dropWhile uchar_space s)))"



section \<open>Errors\<close>

text \<open>
  The exceptions of the source that a model function can end in. A function that can
  raise returns \<open>py_error + 'a\<close>, with \<open>Inl\<close> for the exception.
\<close>

datatype py_error = ValueError | ZeroDivisionError | OverflowError | TimeoutError
  | ConnectionError | JSONDecodeError | TypeError | IndexError | KeyError | AttributeError

section \<open>Decimal numerals and dates\<close>

text \<open>
  \<open>str_nat\<close> is \<open>str(n)\<close> for a natural number, \<open>zero_pad w n\<close> the format
  \<open>{n:0wd}\<close>, and \<open>dec_value\<close> reads a string of decimal digits, as \<open>int\<close> and
  \<open>float\<close> do on what \<open>\d+\<close> has matched.
\<close>

definition digit_char :: "nat \<Rightarrow> char" where
  "digit_char n = ''0123456789'' ! n"

fun str_nat :: "nat \<Rightarrow> string" where
  "str_nat n = (if n < 10 then [digit_char n] else str_nat (n div 10) @ [digit_char (n mod 10)])"

declare str_nat.simps [simp del]

definition zero_pad :: "nat \<Rightarrow> nat \<Rightarrow> string" where
  "zero_pad w n = replicate (w - length (str_nat n)) (CHR ''0'') @ str_nat n"

definition digit_val :: "char \<Rightarrow> nat" where
  "digit_val c = of_char c - 48"

definition dec_value :: "string \<Rightarrow> nat" where
  "dec_value ds = foldl (\<lambda>n c. 10 * n + digit_val c) 0 ds"

text \<open>
  \<open>py_slice xs lo hi\<close> is the slice \<open>xs[lo:hi]\<close>, a bound that is left out being \<open>None\<close>;
  a negative bound counts from the end, and a bound beyond the list is cut to it.
\<close>

definition slice_bound :: "int \<Rightarrow> nat \<Rightarrow> nat" where
  "slice_bound i len = (if i < 0 then nat (max (i + int len) 0) else min (nat i) len)"

definition py_slice :: "'a list \<Rightarrow> int option \<Rightarrow> int option \<Rightarrow> 'a list" where
  "py_slice xs lo hi =
     (let a = (case lo of None \<Rightarrow> 0 | Some i \<Rightarrow> slice_bound i (length xs));
          b = (case hi of None \<Rightarrow> length xs | Some j \<Rightarrow> slice_bound j (length xs))
      in take (b - a) (drop a xs))"

text \<open>
  \<open>datetime.now()\<close>: only the calendar date plays a role in the source (\<open>replace\<close> of
  the day and the month, \<open>timedelta\<close> of whole days, \<open>strftime\<close> of the date). The
  field \<open>mday\<close> is Python's \<open>day\<close>. The current date is an argument of every function
  that reads the clock, the same date for all the reads of one call.
\<close>

record datetime =
  year :: int
  month :: int
  mday :: int

definition is_leap :: "int \<Rightarrow> bool" where
  "is_leap y = (y mod 4 = 0 \<and> (y mod 100 \<noteq> 0 \<or> y mod 400 = 0))"

definition days_in_month :: "int \<Rightarrow> int \<Rightarrow> int" where
  "days_in_month y m =
     (if m = 2 then (if is_leap y then 29 else 28)
      else if m = 4 \<or> m = 6 \<or> m = 9 \<or> m = 11 then 30 else 31)"

definition valid_date :: "datetime \<Rightarrow> bool" where
  "valid_date d = (1 \<le> year d \<and> year d \<le> 9999 \<and> 1 \<le> month d \<and> month d \<le> 12 \<and>
                   1 \<le> mday d \<and> mday d \<le> days_in_month (year d) (month d))"

text \<open>
  \<open>date.replace(month=m, day=k)\<close> builds a new date and raises ValueError when the month is
  not in 1..12 or the day is not a day of that month.
\<close>

definition replace_month_day :: "datetime \<Rightarrow> int \<Rightarrow> int \<Rightarrow> py_error + datetime" where
  "replace_month_day d m k =
     (let r = d\<lparr>month := m, mday := k\<rparr>
      in if valid_date r then Inr r else Inl ValueError)"

definition replace_day :: "datetime \<Rightarrow> int \<Rightarrow> py_error + datetime" where
  "replace_day d k = replace_month_day d (month d) k"

definition next_day :: "datetime \<Rightarrow> datetime" where
  "next_day d =
     (if mday d < days_in_month (year d) (month d) then d\<lparr>mday := mday d + 1\<rparr>
      else if month d < 12 then d\<lparr>month := month d + 1, mday := 1\<rparr>
      else \<lparr>year = year d + 1, month = 1, mday = 1\<rparr>)"

definition prev_day :: "datetime \<Rightarrow> datetime" where
  "prev_day d =
     (if 1 < mday d then d\<lparr>mday := mday d - 1\<rparr>
      else if 1 < month d
        then d\<lparr>month := month d - 1, mday := days_in_month (year d) (month d - 1)\<rparr>
      else \<lparr>year = year d - 1, month = 12, mday = 31\<rparr>)"

fun iterate :: "nat \<Rightarrow> ('a \<Rightarrow> 'a) \<Rightarrow> 'a \<Rightarrow> 'a" where
  "iterate n f x = (if n = 0 then x else iterate (n - 1) f (f x))"

declare iterate.simps [simp del]

text \<open>
  \<open>d + timedelta(days=n)\<close>: \<open>timedelta\<close> raises OverflowError beyond 999999999 days, and
  the sum does when the date leaves the years 1 to 9999.
\<close>

definition add_days :: "datetime \<Rightarrow> int \<Rightarrow> py_error + datetime" where
  "add_days d n =
     (if n < - 999999999 \<or> 999999999 < n then Inl OverflowError
      else let r = (if 0 \<le> n then iterate (nat n) next_day d
                    else iterate (nat (- n)) prev_day d)
           in if year r < 1 \<or> 9999 < year r then Inl OverflowError else Inr r)"

text \<open>\<open>strftime\<close> with \<open>%Y-%m-%d\<close> and with \<open>%B %d, %Y\<close>.\<close>

definition strftime_ymd :: "datetime \<Rightarrow> string" where
  "strftime_ymd d =
     zero_pad 4 (nat (year d)) @ ''-'' @ zero_pad 2 (nat (month d)) @ ''-'' @
     zero_pad 2 (nat (mday d))"

definition month_names :: "string list" where
  "month_names = [''January'', ''February'', ''March'', ''April'', ''May'', ''June'', ''July'',
                  ''August'', ''September'', ''October'', ''November'', ''December'']"

definition strftime_long :: "datetime \<Rightarrow> string" where
  "strftime_long d =
     month_names ! nat (month d - 1) @ '' '' @ zero_pad 2 (nat (mday d)) @ '', '' @
     zero_pad 4 (nat (year d))"

text \<open>
  A function that raises ends the caller at once unless the caller catches it:
  \<open>bind\<close> passes the exception on, \<open>try_except\<close> is a \<open>try\<close> block with one handler for
  every exception, and \<open>sequence\<close> is a loop that appends one result per round and ends
  at the first exception.
\<close>

definition bind :: "py_error + 'a \<Rightarrow> ('a \<Rightarrow> py_error + 'b) \<Rightarrow> py_error + 'b" where
  "bind m f = (case m of Inl e \<Rightarrow> Inl e | Inr v \<Rightarrow> f v)"

definition try_except :: "py_error + 'a \<Rightarrow> (py_error \<Rightarrow> py_error + 'a) \<Rightarrow> py_error + 'a" where
  "try_except body handler = (case body of Inl e \<Rightarrow> handler e | Inr v \<Rightarrow> Inr v)"

fun sequence :: "(py_error + 'a) list \<Rightarrow> py_error + 'a list" where
  "sequence [] = Inr []"
| "sequence (m # ms) =
     (case m of Inl e \<Rightarrow> Inl e
      | Inr v \<Rightarrow> (case sequence ms of Inl e \<Rightarrow> Inl e | Inr vs \<Rightarrow> Inr (v # vs)))"

section \<open>The itinerary synthesizer\<close>

text \<open>
  \<open>places_tool.py\<close>. A place is the dictionary that \<open>_generate_places_for_category\<close>
  builds; a day entry is the dictionary that \<open>create_itinerary_suggestions\<close> appends
  (its key \<open>activities\<close> is the field \<open>day_activities\<close>, the name being taken by the
  place). The pool \<open>all_places\<close> is what \<open>search_places(destination, limit=num_days * 4)\<close>
  returned: it is drawn at random and shuffled, and it is an argument here. The order
  in which Python iterates over the set of activities is the argument \<open>set_order\<close>.
\<close>

record entry_fee =
  is_free :: bool
  fee_price :: int
  fee_currency :: string

record place =
  name :: string
  category :: string
  ptype :: string
  rating :: real
  num_reviews :: int
  description :: string
  address :: string
  estimated_visit_duration :: string
  entry_fee :: entry_fee
  best_time_to_visit :: string
  activities :: "string list"

record day_plan =
  day :: int
  theme :: string
  places :: "place list"
  day_activities :: "string list"

definition themes :: "string list" where
  "themes = [''Historical Exploration'', ''Cultural Immersion'', ''Natural Beauty'',
             ''Local Experiences'', ''Adventure & Entertainment'',
             ''Relaxation & Leisure'', ''Shopping & Cuisine'']"

definition get_day_theme :: "int \<Rightarrow> int \<Rightarrow> string" where
  "get_day_theme d total_days =
     (if d = 0 then ''Arrival & City Orientation''
      else if d = total_days - 1 then ''Final Day Highlights''
      else themes ! nat (d mod int (length themes)))"

definition suggest_activities ::
  "(string list \<Rightarrow> string list) \<Rightarrow> place list \<Rightarrow> string list" where
  "suggest_activities set_order ps = take 4 (set_order (concat (map activities ps)))"

definition itinerary_day ::
  "(string list \<Rightarrow> string list) \<Rightarrow> place list \<Rightarrow> int \<Rightarrow> int \<Rightarrow> int \<Rightarrow> day_plan" where
  "itinerary_day set_order all_places places_per_day num_days d =
     (let start_idx = d * places_per_day;
          end_idx = start_idx + places_per_day;
          day_places = py_slice all_places (Some start_idx) (Some end_idx)
      in \<lparr>day = d + 1, theme = get_day_theme d num_days, places = day_places,
          day_activities = suggest_activities set_order day_places\<rparr>)"

text \<open>
  \<open>len(all_places) // num_days\<close> raises ZeroDivisionError for no days; \<open>range(num_days)\<close>
  is \<open>[0..num_days - 1]\<close>, empty for a negative number.
\<close>

definition create_itinerary_suggestions ::
  "(string list \<Rightarrow> string list) \<Rightarrow> place list \<Rightarrow> int \<Rightarrow> py_error + day_plan list" where
  "create_itinerary_suggestions set_order all_places num_days =
     (if num_days = 0 then Inl ZeroDivisionError
      else let places_per_day = max (int (length all_places) div num_days) 2
           in Inr (map (itinerary_day set_order all_places places_per_day num_days)
                       [0..num_days - 1]))"

section \<open>The weather adapter\<close>

text \<open>
  \<open>weather_tool.py\<close>. A reading holds the keys that the current weather and a forecast
  day have in common; \<open>weather\<close> is the dictionary of \<open>_parse_mcp_response\<close> and of
  \<open>_get_mock_current_weather\<close>, a key that only one of them sets being optional, and
  \<open>forecast_day\<close> is an entry of the forecast. Python's floats are reals here, and
  \<open>float\<close> of a digit string is its value. That is what Python computes for a whole
  number below \<open>2 ^ 53\<close>, so for every string of up to fifteen digits; Python rounds a
  longer number, and a number with a fraction, to the nearest float, which the model
  does not follow. The statements below about extracted numbers are about the defaults
  and about whole numbers of one or two digits.
\<close>

record reading =
  temperature_celsius :: real
  temperature_fahrenheit :: "real option"
  description :: string
  humidity :: int
  wind_speed :: real

record weather = reading +
  city :: string
  raw_data :: "string option"
  feels_like_celsius :: "real option"
  source :: string
  units :: "string option"

record forecast_day = reading +
  date :: string

subsection \<open>The extractors\<close>

text \<open>
  \<open>re.search\<close> tries the pattern at every position from the left and returns the
  first match. \<open>match_digits_then lit\<close> is the pattern \<open>(\d+)lit\<close> at one position:
  \<open>\d+\<close> takes every digit there is, and giving digits back cannot help, since
  \<open>lit\<close> starts with a character that is not a digit. It returns group 1.
\<close>

fun re_search :: "(string \<Rightarrow> 'a option) \<Rightarrow> string \<Rightarrow> 'a option" where
  "re_search m [] = m []"
| "re_search m (c # cs) = (case m (c # cs) of Some g \<Rightarrow> Some g | None \<Rightarrow> re_search m cs)"

definition match_digits_then :: "string \<Rightarrow> string \<Rightarrow> string option" where
  "match_digits_then lit s =
     (let ds = takeWhile is_digit s
      in if ds \<noteq> [] \<and> starts_with lit (dropWhile is_digit s) then Some ds else None)"

definition degree_C :: string where
  "degree_C = [CHR 0xB0, CHR ''C'']"

definition degree_F :: string where
  "degree_F = [CHR 0xB0, CHR ''F'']"

definition extract_temperature :: "string \<Rightarrow> string \<Rightarrow> real" where
  "extract_temperature text units' =
     (case (if units' = ''metric'' then re_search (match_digits_then degree_C) text
            else re_search (match_digits_then degree_F) text) of
        Some ds \<Rightarrow> real (dec_value ds)
      | None \<Rightarrow> (if units' = ''metric'' then 20.0 else 68.0))"

definition conditions :: "string list" where
  "conditions = [''sunny'', ''cloudy'', ''rainy'', ''clear'', ''partly cloudy'',
                 ''overcast'', ''stormy'']"

fun first_condition :: "string list \<Rightarrow> string \<Rightarrow> string" where
  "first_condition [] text_lower = ''moderate weather''"
| "first_condition (condition # rest) text_lower =
     (if contains condition text_lower then condition
      else first_condition rest text_lower)"

definition extract_description :: "string \<Rightarrow> string" where
  "extract_description text = first_condition conditions (lower text)"

text \<open>
  \<open>int\<close> refuses a string of more than 4300 digits with ValueError, which the bare
  \<open>except\<close> of \<open>_extract_humidity\<close> turns into the default.
\<close>

definition extract_humidity :: "string \<Rightarrow> int" where
  "extract_humidity text =
     (case re_search (match_digits_then ''%'') text of
        Some ds \<Rightarrow> (if 4300 < length ds then 65 else int (dec_value ds))
      | None \<Rightarrow> 65)"

text \<open>
  The pattern \<open>(\d+\.?\d*)\s*(mph|km/h|m/s)\<close> at one position. Every part takes as much
  as it can; a shorter choice leaves a digit, a dot or a space in front of the unit,
  where no unit starts, so the first choice decides. Group 1 is the digits, the dot if
  there is one, and the digits after it.
\<close>

definition match_wind :: "string \<Rightarrow> (string \<times> string) option" where
  "match_wind s =
     (let d1 = takeWhile is_digit s;
          r1 = dropWhile is_digit s;
          r2 = (if starts_with ''.'' r1 then tl r1 else r1);
          d2 = takeWhile is_digit r2;
          r3 = dropWhile is_space (dropWhile is_digit r2)
      in if d1 \<noteq> [] \<and>
            (starts_with ''mph'' r3 \<or> starts_with ''km/h'' r3 \<or> starts_with ''m/s'' r3)
         then Some (d1, d2) else None)"

definition extract_wind_speed :: "string \<Rightarrow> real" where
  "extract_wind_speed text =
     (case re_search match_wind (lower text) of
        Some (d1, d2) \<Rightarrow> real (dec_value d1) + real (dec_value d2) / 10 ^ length d2
      | None \<Rightarrow> 10.0)"

subsection \<open>The normalizer and the synthetic reading\<close>

definition get_mock_current_weather :: "string \<Rightarrow> weather" where
  "get_mock_current_weather city' =
     \<lparr>temperature_celsius = 24.5, temperature_fahrenheit = Some 76.1,
      description = ''partly cloudy'', humidity = 65, wind_speed = 12.5,
      city = city', raw_data = None, feels_like_celsius = Some 23.8,
      source = ''Mock Data (AccuWeather API key not configured)'', units = None\<rparr>"

text \<open>
  The content of an MCP result is a list of items; the text of an item is its
  attribute \<open>text\<close>, or \<open>str(item)\<close> for an item without one. \<open>NotAList\<close> is any
  content that is not a list.
\<close>

datatype content_item = TextContent string | OtherContent string

datatype content = NotAList | Items "content_item list"

fun item_text :: "content_item \<Rightarrow> string" where
  "item_text (TextContent t) = t"
| "item_text (OtherContent s) = s"

definition parse_mcp_response :: "content \<Rightarrow> string \<Rightarrow> string \<Rightarrow> weather" where
  "parse_mcp_response c location units' =
     (case c of
        Items (item # rest) \<Rightarrow>
          (let weather_text = item_text item
           in \<lparr>temperature_celsius = extract_temperature weather_text units',
               temperature_fahrenheit =
                 (if units' = ''metric'' then Some (extract_temperature weather_text ''imperial'')
                  else None),
               description = extract_description weather_text,
               humidity = extract_humidity weather_text,
               wind_speed = extract_wind_speed weather_text,
               city = location, raw_data = Some weather_text, feels_like_celsius = None,
               source = ''MCP Weather Server (AccuWeather)'', units = Some units'\<rparr>)
      | _ \<Rightarrow> get_mock_current_weather location)"

subsection \<open>The call of the weather server\<close>

text \<open>
  What the session with the external server does is an argument: it raises (a time-out
  is the exception \<open>TimeoutError\<close> of \<open>asyncio.wait_for\<close>), or it returns a result
  without content, or a result with content.
\<close>

datatype mcp_reply = Raises py_error | NoContent | Result content

definition get_weather :: "mcp_reply \<Rightarrow> string \<Rightarrow> string \<Rightarrow> py_error + weather" where
  "get_weather reply location units' =
     (case reply of
        Raises e \<Rightarrow> Inl e
      | NoContent \<Rightarrow> Inr (get_mock_current_weather location)
      | Result c \<Rightarrow> Inr (parse_mcp_response c location units'))"

definition call_mcp_weather :: "mcp_reply \<Rightarrow> string \<Rightarrow> string \<Rightarrow> py_error + weather" where
  "call_mcp_weather reply location units' =
     try_except (get_weather reply location units')
       (\<lambda>e. if e = TimeoutError then Inr (get_mock_current_weather location)
            else Inr (get_mock_current_weather location))"

text \<open>
  \<open>WeatherTool.__init__\<close>: the tool uses the server exactly when there is a key that is
  not the placeholder of the sample configuration.
\<close>

record weather_tool =
  api_key :: "string option"
  use_mock :: bool

definition weather_tool_init :: "string option \<Rightarrow> weather_tool" where
  "weather_tool_init key =
     (if key \<noteq> None \<and> key \<noteq> Some [] \<and> key \<noteq> Some ''your_accuweather_api_key_here''
      then \<lparr>api_key = key, use_mock = False\<rparr>
      else \<lparr>api_key = key, use_mock = True\<rparr>)"

definition get_current_weather ::
  "weather_tool \<Rightarrow> mcp_reply \<Rightarrow> string \<Rightarrow> string \<Rightarrow> py_error + weather" where
  "get_current_weather tool reply city' units' =
     (if use_mock tool then Inr (get_mock_current_weather city')
      else try_except (call_mcp_weather reply city' units')
             (\<lambda>e. Inr (get_mock_current_weather city')))"

subsection \<open>The forecast\<close>

definition real_forecast_day :: "weather \<Rightarrow> datetime \<Rightarrow> int \<Rightarrow> py_error + forecast_day" where
  "real_forecast_day current now i =
     bind (if mday now + i \<le> 28 then replace_day now (mday now + i)
           else replace_month_day now (month now + 1) 1)
       (\<lambda>d. Inr \<lparr>temperature_celsius = temperature_celsius current + real_of_int (i mod 3) - 1,
                  temperature_fahrenheit =
                    Some ((temperature_celsius current + real_of_int (i mod 3) - 1) * 9 / 5 + 32),
                  description = description current,
                  humidity = humidity current,
                  wind_speed = wind_speed current,
                  date = strftime_ymd d\<rparr>)"

definition mock_forecast_day :: "datetime \<Rightarrow> int \<Rightarrow> py_error + forecast_day" where
  "mock_forecast_day now i =
     bind (add_days now i)
       (\<lambda>d. let temp_variation = (i mod 3) * 2
            in Inr \<lparr>temperature_celsius = 24.0 + real_of_int temp_variation,
                    temperature_fahrenheit = Some ((24.0 + real_of_int temp_variation) * 9 / 5 + 32),
                    description = [''sunny'', ''partly cloudy'', ''cloudy''] ! nat (i mod 3),
                    humidity = 60 + (i mod 4) * 5,
                    wind_speed = real_of_int (10 + (i mod 3) * 2),
                    date = strftime_ymd d\<rparr>)"

definition get_mock_forecast :: "datetime \<Rightarrow> int \<Rightarrow> py_error + forecast_day list" where
  "get_mock_forecast now num_days = sequence (map (mock_forecast_day now) [0..num_days - 1])"

definition get_forecast ::
  "weather_tool \<Rightarrow> mcp_reply \<Rightarrow> datetime \<Rightarrow> string \<Rightarrow> int \<Rightarrow> py_error + forecast_day list" where
  "get_forecast tool reply now city' num_days =
     bind (get_current_weather tool reply city' ''metric'')
       (\<lambda>current.
          if contains ''MCP'' (source current)
          then sequence (map (real_forecast_day current now) [0..num_days - 1])
          else get_mock_forecast now num_days)"

section \<open>The flight adapter\<close>

text \<open>
  \<open>flight_tool.py\<close>. Python's \<open>random\<close> is a source of raw numbers, an argument of the
  generator: \<open>randint a b\<close> and \<open>choice xs\<close> each take the next raw number and reduce it
  to their range, so every value of the range can come out and nothing else can.
\<close>

type_synonym rng = "nat \<Rightarrow> nat"

definition randint :: "int \<Rightarrow> int \<Rightarrow> rng \<Rightarrow> int \<times> rng" where
  "randint a b g = (a + int (g 0 mod nat (b - a + 1)), \<lambda>n. g (Suc n))"

definition choice :: "'a list \<Rightarrow> rng \<Rightarrow> 'a \<times> rng" where
  "choice xs g = (xs ! (g 0 mod length xs), \<lambda>n. g (Suc n))"

text \<open>
  A flight that the adapter builds itself, from random numbers or from the prices found
  in a text; the key \<open>source\<close> of the dictionary is the field \<open>flight_source\<close>, and the
  key \<open>raw_info\<close> exists only for a flight built from a text. Origin and destination
  are city codes, which \<open>_get_city_code\<close> returns. The price is the integer
  \<open>300 + randint(-100, 200)\<close> or the float of the matched digits.
\<close>

record flight =
  flight_number :: string
  airline :: string
  origin :: ustring
  destination :: ustring
  departure_date :: string
  departure_time :: string
  arrival_date :: string
  arrival_time :: string
  duration :: string
  stops :: int
  price :: real
  currency :: string
  flight_source :: string
  raw_info :: "string option"

text \<open>The value that \<open>json.loads\<close> returns.\<close>

datatype json = JNull | JBool bool | JInt int | JReal real | JStr string
  | JArr "json list" | JObj "(string \<times> json) list"

text \<open>
  A flight taken from the answer of the server: \<open>_parse_single_kiwi_flight\<close> copies
  values of the answer, of whatever type they are.
\<close>

record kiwi_flight =
  kw_flight_number :: json
  kw_airline :: json
  kw_origin :: ustring
  kw_destination :: ustring
  kw_departure_date :: json
  kw_departure_time :: json
  kw_arrival_date :: json
  kw_arrival_time :: json
  kw_duration :: json
  kw_stops :: int
  kw_price :: json
  kw_currency :: json
  kw_deep_link :: json
  kw_source :: string

datatype flight_entry = Generated flight | Kiwi kiwi_flight

record search_params =
  sp_from :: ustring
  sp_to :: ustring
  sp_departure :: string
  sp_return :: "string option"

text \<open>
  The result of a search; the key \<open>source\<close> is the field \<open>data_source\<close>. The keys
  \<open>return_flights\<close> and \<open>raw_response\<close> are not always there.
\<close>

record flights_data =
  outbound_flights :: "flight_entry list"
  data_source :: string
  params :: search_params
  return_flights :: "flight_entry list option"
  raw_response :: "string option"

subsection \<open>The synthetic flights\<close>

definition mock_flight ::
  "ustring \<Rightarrow> ustring \<Rightarrow> string \<Rightarrow> nat \<Rightarrow> rng \<Rightarrow> flight \<times> rng" where
  "mock_flight fly_from fly_to dep_date i g =
     (let hour = 6 + i * 3;
          (r, g1) = randint (- 100) 200 g;
          price' = 300 + r;
          (al, g2) = choice [''Kiwi Airlines'', ''AirFly'', ''SkyConnect''] g1;
          (st, g3) = choice [0, 0, 1] g2
      in (\<lparr>flight_number = ''KW'' @ str_nat (1000 + i), airline = al,
           origin = fly_from, destination = fly_to,
           departure_date = dep_date, departure_time = zero_pad 2 hour @ '':00'',
           arrival_date = dep_date, arrival_time = zero_pad 2 (hour + 6) @ '':00'',
           duration = ''6h 0m'', stops = st, price = real_of_int price',
           currency = ''USD'', flight_source = ''Mock Data'', raw_info = None\<rparr>, g3))"

fun mock_flights_loop ::
  "ustring \<Rightarrow> ustring \<Rightarrow> string \<Rightarrow> nat list \<Rightarrow> rng \<Rightarrow> flight list" where
  "mock_flights_loop fly_from fly_to dep_date [] g = []"
| "mock_flights_loop fly_from fly_to dep_date (i # is) g =
     (let (f, g') = mock_flight fly_from fly_to dep_date i g
      in f # mock_flights_loop fly_from fly_to dep_date is g')"

text \<open>The list before \<open>sort\<close>: one flight for each \<open>i\<close> of \<open>range(5)\<close>.\<close>

definition unsorted_mock_flights :: "rng \<Rightarrow> ustring \<Rightarrow> ustring \<Rightarrow> string \<Rightarrow> flight list" where
  "unsorted_mock_flights g fly_from fly_to dep_date =
     mock_flights_loop fly_from fly_to dep_date [0, 1, 2, 3, 4] g"

text \<open>
  \<open>if return_date:\<close> holds for a string that is not empty. \<open>list.sort\<close> is stable, as
  \<open>sort_key\<close> is.
\<close>

definition truthy :: "string option \<Rightarrow> bool" where
  "truthy s = (s \<noteq> None \<and> s \<noteq> Some [])"

definition generate_mock_flights ::
  "rng \<Rightarrow> ustring \<Rightarrow> ustring \<Rightarrow> string \<Rightarrow> string option \<Rightarrow> flights_data" where
  "generate_mock_flights g fly_from fly_to dep_date ret_date =
     (let sorted_flights =
            map Generated (sort_key price (unsorted_mock_flights g fly_from fly_to dep_date))
      in \<lparr>outbound_flights = sorted_flights,
          data_source = ''Mock Data (Kiwi MCP Server unavailable)'',
          params = \<lparr>sp_from = fly_from, sp_to = fly_to, sp_departure = dep_date,
                     sp_return = ret_date\<rparr>,
          return_flights = (if truthy ret_date then Some (take 3 sorted_flights) else None),
          raw_response = None\<rparr>)"

subsection \<open>Flights from a text\<close>

text \<open>
  \<open>re.findall(r'\$(\d+)', text)\<close>: the matches from left to right, the search going on
  behind each match.
\<close>

function findall_prices :: "string \<Rightarrow> string list" where
  "findall_prices [] = []"
| "findall_prices (c # cs) =
     (if c = CHR ''$'' \<and> takeWhile is_digit cs \<noteq> []
      then takeWhile is_digit cs # findall_prices (dropWhile is_digit cs)
      else findall_prices cs)"
  by pat_completeness auto
termination
  by (relation "measure length") (auto simp: length_dropWhile_le less_Suc_eq_le)

definition text_flight :: "string \<Rightarrow> ustring \<Rightarrow> ustring \<Rightarrow> string \<Rightarrow> nat \<times> string \<Rightarrow> flight" where
  "text_flight text fly_from fly_to date' ip =
     (case ip of (i, p) \<Rightarrow>
        \<lparr>flight_number = ''KW'' @ str_nat (1000 + i), airline = ''Kiwi Airlines'',
         origin = fly_from, destination = fly_to,
         departure_date = date', departure_time = str_nat (8 + i * 2) @ '':00'',
         arrival_date = date', arrival_time = str_nat (14 + i * 2) @ '':00'',
         duration = ''6h 0m'', stops = 0, price = real (dec_value p),
         currency = ''USD'', flight_source = ''Kiwi.com MCP Server'',
         raw_info = Some (take 200 text)\<rparr>)"

definition parse_text_response :: "string \<Rightarrow> ustring \<Rightarrow> ustring \<Rightarrow> string \<Rightarrow> flight list" where
  "parse_text_response text fly_from fly_to date' =
     (let price_matches = findall_prices text
      in map (text_flight text fly_from fly_to date') (enumerate 0 (take 5 price_matches)))"

subsection \<open>Flights from a JSON answer\<close>

text \<open>
  The operations of \<open>_parse_single_kiwi_flight\<close> on a value of the answer: \<open>v[0]\<close>,
  \<open>v[lo:hi]\<close> and \<open>len(v)\<close>, each with the exception it raises on a value of the
  wrong type. An object of the answer has string keys only, so \<open>v[0]\<close> on an object is
  a KeyError.
\<close>

definition py_first :: "json \<Rightarrow> py_error + json" where
  "py_first v =
     (case v of
        JArr (x # xs) \<Rightarrow> Inr x
      | JArr [] \<Rightarrow> Inl IndexError
      | JStr (c # cs) \<Rightarrow> Inr (JStr [c])
      | JStr [] \<Rightarrow> Inl IndexError
      | JObj kv \<Rightarrow> Inl KeyError
      | _ \<Rightarrow> Inl TypeError)"

definition py_slice_json :: "json \<Rightarrow> int option \<Rightarrow> int option \<Rightarrow> py_error + json" where
  "py_slice_json v lo hi =
     (case v of
        JArr xs \<Rightarrow> Inr (JArr (py_slice xs lo hi))
      | JStr s \<Rightarrow> Inr (JStr (py_slice s lo hi))
      | JObj kv \<Rightarrow> Inl KeyError
      | _ \<Rightarrow> Inl TypeError)"

definition py_len :: "json \<Rightarrow> py_error + int" where
  "py_len v =
     (case v of
        JArr xs \<Rightarrow> Inr (int (length xs))
      | JStr s \<Rightarrow> Inr (int (length s))
      | JObj kv \<Rightarrow> Inr (int (length kv))
      | _ \<Rightarrow> Inl TypeError)"

definition dict_get :: "(string \<times> json) list \<Rightarrow> string \<Rightarrow> json \<Rightarrow> json" where
  "dict_get kv k dflt = (case map_of kv k of Some v \<Rightarrow> v | None \<Rightarrow> dflt)"

text \<open>
  The body of the \<open>try\<close> of \<open>_parse_single_kiwi_flight\<close>; \<open>flight_data.get\<close> on a value
  that is not an object is an AttributeError. The argument \<open>py_hash\<close> is
  \<open>hash(str(flight_data))\<close>, which Python salts anew in every process.
\<close>

definition single_kiwi_flight ::
  "(json \<Rightarrow> int) \<Rightarrow> json \<Rightarrow> ustring \<Rightarrow> ustring \<Rightarrow> py_error + kiwi_flight" where
  "single_kiwi_flight py_hash flight_data fly_from fly_to =
     (case flight_data of
        JObj kv \<Rightarrow>
          (let number = dict_get kv ''id''
                 (JStr (''KW'' @ str_nat (nat (py_hash flight_data mod 10000))))
           in bind (py_first (dict_get kv ''airlines'' (JArr [JStr ''Kiwi Airlines'']))) (\<lambda>al.
              bind (py_slice_json (dict_get kv ''local_departure'' (JStr [])) None (Some 10)) (\<lambda>dd.
              bind (py_slice_json (dict_get kv ''local_departure'' (JStr [])) (Some (- 8)) (Some (- 3))) (\<lambda>dtm.
              bind (py_slice_json (dict_get kv ''local_arrival'' (JStr [])) None (Some 10)) (\<lambda>ad.
              bind (py_slice_json (dict_get kv ''local_arrival'' (JStr [])) (Some (- 8)) (Some (- 3))) (\<lambda>atm.
              bind (py_len (dict_get kv ''route'' (JArr []))) (\<lambda>n.
                Inr \<lparr>kw_flight_number = number, kw_airline = al,
                     kw_origin = fly_from, kw_destination = fly_to,
                     kw_departure_date = dd, kw_departure_time = dtm,
                     kw_arrival_date = ad, kw_arrival_time = atm,
                     kw_duration = dict_get kv ''fly_duration'' (JStr ''N/A''),
                     kw_stops = n - 1,
                     kw_price = dict_get kv ''price'' (JInt 0),
                     kw_currency = dict_get kv ''currency'' (JStr ''USD''),
                     kw_deep_link = dict_get kv ''deep_link'' (JStr ''https://www.kiwi.com''),
                     kw_source = ''Kiwi.com MCP Server''\<rparr>)))))))
      | _ \<Rightarrow> Inl AttributeError)"

definition parse_single_kiwi_flight ::
  "(json \<Rightarrow> int) \<Rightarrow> json \<Rightarrow> ustring \<Rightarrow> ustring \<Rightarrow> kiwi_flight option" where
  "parse_single_kiwi_flight py_hash flight_data fly_from fly_to =
     (case single_kiwi_flight py_hash flight_data fly_from fly_to of
        Inl e \<Rightarrow> None
      | Inr f \<Rightarrow> Some f)"

text \<open>
  \<open>flight_results['data'][:5]\<close> and the values that the loop goes through: the
  elements of a list, the characters of a string.
\<close>

definition first_five :: "json \<Rightarrow> py_error + json list" where
  "first_five d =
     (case d of
        JArr xs \<Rightarrow> Inr (take 5 xs)
      | JStr s \<Rightarrow> Inr (map (\<lambda>c. JStr [c]) (take 5 s))
      | JObj kv \<Rightarrow> Inl KeyError
      | _ \<Rightarrow> Inl TypeError)"

definition kiwi_flights_of ::
  "(json \<Rightarrow> int) \<Rightarrow> json \<Rightarrow> ustring \<Rightarrow> ustring \<Rightarrow> py_error + kiwi_flight list" where
  "kiwi_flights_of py_hash flight_results fly_from fly_to =
     (case flight_results of
        JObj kv \<Rightarrow>
          (case map_of kv ''data'' of
             Some d \<Rightarrow>
               bind (first_five d)
                 (\<lambda>items. Inr (List.map_filter
                                 (\<lambda>fl. parse_single_kiwi_flight py_hash fl fly_from fly_to) items))
           | None \<Rightarrow> Inr [])
      | _ \<Rightarrow> Inr [])"

text \<open>
  \<open>_parse_kiwi_response\<close>. \<open>json_loads\<close> is \<open>json.loads\<close>, with \<open>None\<close> for the
  JSONDecodeError of a text that is not JSON; an object it returns has every key once.
\<close>

definition kiwi_response_body ::
  "(string \<Rightarrow> json option) \<Rightarrow> (json \<Rightarrow> int) \<Rightarrow> rng \<Rightarrow> content \<Rightarrow> ustring \<Rightarrow> ustring \<Rightarrow>
     string \<Rightarrow> string option \<Rightarrow> py_error + flights_data" where
  "kiwi_response_body json_loads py_hash g c fly_from fly_to dep_date ret_date =
     (let flights_data =
            \<lparr>outbound_flights = [], data_source = ''Kiwi MCP Server (Real Data)'',
             params = \<lparr>sp_from = fly_from, sp_to = fly_to, sp_departure = dep_date,
                        sp_return = ret_date\<rparr>,
             return_flights = None, raw_response = None\<rparr>;
          mock = generate_mock_flights g fly_from fly_to dep_date ret_date
      in case c of
           Items (item # rest) \<Rightarrow>
             (let response_text = item_text item
              in case json_loads response_text of
                   Some flight_results \<Rightarrow>
                     bind (kiwi_flights_of py_hash flight_results fly_from fly_to)
                       (\<lambda>fs. if fs \<noteq> []
                             then Inr (flights_data\<lparr>outbound_flights := map Kiwi fs\<rparr>)
                             else Inr mock)
                 | None \<Rightarrow>
                     (let fs = parse_text_response response_text fly_from fly_to dep_date
                      in if fs \<noteq> []
                         then Inr (flights_data\<lparr>raw_response := Some response_text,
                                                outbound_flights := map Generated fs\<rparr>)
                         else Inr mock))
         | _ \<Rightarrow> Inr mock)"

definition parse_kiwi_response ::
  "(string \<Rightarrow> json option) \<Rightarrow> (json \<Rightarrow> int) \<Rightarrow> rng \<Rightarrow> content \<Rightarrow> ustring \<Rightarrow> ustring \<Rightarrow>
     string \<Rightarrow> string option \<Rightarrow> py_error + flights_data" where
  "parse_kiwi_response json_loads py_hash g c fly_from fly_to dep_date ret_date =
     try_except (kiwi_response_body json_loads py_hash g c fly_from fly_to dep_date ret_date)
       (\<lambda>e. Inr (generate_mock_flights g fly_from fly_to dep_date ret_date))"

subsection \<open>The call of the flight server\<close>

definition connect_and_search ::
  "(string \<Rightarrow> json option) \<Rightarrow> (json \<Rightarrow> int) \<Rightarrow> rng \<Rightarrow> mcp_reply \<Rightarrow> string \<Rightarrow> ustring \<Rightarrow>
     ustring \<Rightarrow> string option \<Rightarrow> py_error + flights_data" where
  "connect_and_search json_loads py_hash g reply dep_date fly_from fly_to ret_date =
     (case reply of
        Raises e \<Rightarrow> Inl e
      | NoContent \<Rightarrow> Inr (generate_mock_flights g fly_from fly_to dep_date ret_date)
      | Result c \<Rightarrow> parse_kiwi_response json_loads py_hash g c fly_from fly_to dep_date ret_date)"

definition call_kiwi_mcp ::
  "(string \<Rightarrow> json option) \<Rightarrow> (json \<Rightarrow> int) \<Rightarrow> rng \<Rightarrow> mcp_reply \<Rightarrow> string \<Rightarrow> ustring \<Rightarrow>
     ustring \<Rightarrow> string option \<Rightarrow> py_error + flights_data" where
  "call_kiwi_mcp json_loads py_hash g reply dep_date fly_from fly_to ret_date =
     try_except (connect_and_search json_loads py_hash g reply dep_date fly_from fly_to ret_date)
       (\<lambda>e. if e = TimeoutError
            then Inr (generate_mock_flights g fly_from fly_to dep_date ret_date)
            else Inr (generate_mock_flights g fly_from fly_to dep_date ret_date))"

definition search_flights ::
  "(string \<Rightarrow> json option) \<Rightarrow> (json \<Rightarrow> int) \<Rightarrow> rng \<Rightarrow> mcp_reply \<Rightarrow> string \<Rightarrow> ustring \<Rightarrow>
     ustring \<Rightarrow> string option \<Rightarrow> py_error + flights_data" where
  "search_flights json_loads py_hash g reply dep_date fly_from fly_to ret_date =
     try_except (call_kiwi_mcp json_loads py_hash g reply dep_date fly_from fly_to ret_date)
       (\<lambda>e. Inr (generate_mock_flights g fly_from fly_to dep_date ret_date))"

definition get_best_flights ::
  "(string \<Rightarrow> json option) \<Rightarrow> (json \<Rightarrow> int) \<Rightarrow> rng \<Rightarrow> mcp_reply \<Rightarrow> string \<Rightarrow> ustring \<Rightarrow>
     ustring \<Rightarrow> string option \<Rightarrow> int \<Rightarrow> py_error + flights_data" where
  "get_best_flights json_loads py_hash g reply dep_date fly_from fly_to ret_date num_results =
     bind (search_flights json_loads py_hash g reply dep_date fly_from fly_to ret_date)
       (\<lambda>all_flights.
          Inr \<lparr>outbound_flights = py_slice (outbound_flights all_flights) None (Some num_results),
               data_source = data_source all_flights,
               params = params all_flights,
               return_flights =
                 (case return_flights all_flights of
                    None \<Rightarrow> None
                  | Some rs \<Rightarrow> Some (py_slice rs None (Some num_results))),
               raw_response = None\<rparr>)"

text \<open>
  The flight list of a JSON answer, for the statements about an answer without one: the
  list under the key \<open>data\<close> of an object, and no flights for any other value.
\<close>

definition json_flight_items :: "json \<Rightarrow> json list" where
  "json_flight_items j =
     (case j of
        JObj kv \<Rightarrow> (case map_of kv ''data'' of Some (JArr xs) \<Rightarrow> xs | _ \<Rightarrow> [])
      | _ \<Rightarrow> [])"

section \<open>The plan composer\<close>

text \<open>
  \<open>travel_agent.py\<close>. The table of \<open>_get_city_code\<close>, in the order of the source.
  The city and its code are strings that \<open>upper\<close> has a part in.
\<close>

definition city_table :: "(string \<times> string) list" where
  "city_table =
     [(''new york'', ''NYC''), (''nyc'', ''NYC''), (''paris'', ''PAR''), (''london'', ''LON''),
      (''tokyo'', ''TYO''), (''los angeles'', ''LAX''), (''chicago'', ''CHI''),
      (''san francisco'', ''SFO''), (''miami'', ''MIA''), (''boston'', ''BOS''),
      (''seattle'', ''SEA''), (''rome'', ''ROM''), (''barcelona'', ''BCN''),
      (''amsterdam'', ''AMS''), (''dubai'', ''DXB''), (''singapore'', ''SIN''),
      (''hong kong'', ''HKG''), (''sydney'', ''SYD''), (''delhi'', ''DEL''),
      (''mumbai'', ''BOM'')]"

definition city_codes :: "(ustring \<times> ustring) list" where
  "city_codes = map (\<lambda>(name', code). (ustr name', ustr code)) city_table"

definition get_city_code :: "ustring \<Rightarrow> ustring" where
  "get_city_code city' =
     (let city_lower = ustrip (ulower city')
      in case map_of city_codes city_lower of
           Some code \<Rightarrow> code
         | None \<Rightarrow> uupper (take 3 city'))"

text \<open>
  \<open>get_month_name\<close> of \<open>helpers.py\<close>: \<open>calendar.month_name\<close> has thirteen entries, the
  empty string first, and takes an index from -13 to 12.
\<close>

definition get_month_name :: "int \<Rightarrow> py_error + string" where
  "get_month_name m =
     (let names = [] # month_names
      in if 0 \<le> m \<and> m \<le> 12 then Inr (names ! nat m)
         else if - 13 \<le> m \<and> m < 0 then Inr (names ! nat (m + 13))
         else Inl IndexError)"

text \<open>\<open>str(n)\<close> for an integer, as in the label \<open>{num_days} days\<close>.\<close>

definition str_int :: "int \<Rightarrow> string" where
  "str_int n = (if n < 0 then ''-'' @ str_nat (nat (- n)) else str_nat (nat n))"

text \<open>
  What the language model answers is an argument: the text of its response, or the
  exception of the call, which \<open>_generate_cultural_context\<close> replaces by a fixed
  paragraph.
\<close>

definition generate_cultural_context :: "string \<Rightarrow> py_error + string \<Rightarrow> string" where
  "generate_cultural_context destination' llm_reply =
     (case llm_reply of
        Inr response \<Rightarrow> response
      | Inl e \<Rightarrow>
          destination' @
          '' is a remarkable destination known for its rich cultural heritage '' @
          ''and historical significance. The city offers a unique blend of tradition and modernity, '' @
          ''making it an ideal destination for travelers seeking authentic experiences. '' @
          ''Visitors can explore numerous historical sites, immerse themselves in local culture, '' @
          ''and enjoy the vibrant atmosphere that '' @ destination' @ '' has to offer.'')"

record weather_info =
  current :: weather
  forecast :: "forecast_day list"

text \<open>
  \<open>_get_weather_info\<close> calls the server twice, once for the current weather and once
  more inside \<open>get_forecast\<close>; each call has its own reply.
\<close>

definition get_weather_info ::
  "weather_tool \<Rightarrow> mcp_reply \<Rightarrow> mcp_reply \<Rightarrow> datetime \<Rightarrow> string \<Rightarrow> int \<Rightarrow>
     py_error + weather_info" where
  "get_weather_info tool reply1 reply2 now destination' num_days =
     bind (get_current_weather tool reply1 destination' ''metric'') (\<lambda>current_weather.
     bind (get_forecast tool reply2 now destination' (min num_days 5)) (\<lambda>forecast'.
       Inr \<lparr>current = current_weather, forecast = forecast'\<rparr>))"

record date_suggestion =
  period :: string
  start_date :: string
  end_date :: string

text \<open>
  Everything outside the program that one call of \<open>create_travel_plan\<close> reads: the clock,
  the replies of the two servers and of the language model, the random source, the JSON
  decoder and the string hash of Python, and what the places generator returns (its pool
  for this destination and number of days, and the iteration order of a set).
\<close>

record world =
  w_now :: datetime
  w_weather_reply :: mcp_reply
  w_forecast_reply :: mcp_reply
  w_flight_reply :: mcp_reply
  w_llm_reply :: "py_error + string"
  w_random :: rng
  w_json_loads :: "string \<Rightarrow> json option"
  w_py_hash :: "json \<Rightarrow> int"
  w_places_pool :: "place list"
  w_set_order :: "string list \<Rightarrow> string list"

text \<open>
  The plan; every key of the dictionary has the prefix \<open>plan_\<close> here. The time stamp
  \<open>generated_at\<close> is kept as the date that the clock gave. The destination and the
  origin are strings of code points up to U+00FF.
\<close>

record travel_plan =
  plan_destination :: string
  plan_origin :: string
  plan_duration :: string
  plan_travel_month :: string
  plan_cultural_context :: string
  plan_weather :: weather_info
  plan_suggested_dates :: "date_suggestion list"
  plan_flights :: flights_data
  plan_itinerary :: "day_plan list"
  plan_generated_at :: datetime
  plan_mcp_servers_used :: "(string \<times> string) list"

definition create_travel_plan ::
  "world \<Rightarrow> weather_tool \<Rightarrow> string \<Rightarrow> int \<Rightarrow> int \<Rightarrow> string \<Rightarrow> py_error + travel_plan" where
  "create_travel_plan w tool destination' num_days travel_month origin' =
     bind (add_days (w_now w) 2) (\<lambda>departure_date_obj.
     bind (add_days departure_date_obj num_days) (\<lambda>return_date_obj.
     bind (get_weather_info tool (w_weather_reply w) (w_forecast_reply w) (w_now w)
             destination' num_days) (\<lambda>weather_info.
     bind (add_days departure_date_obj 7) (\<lambda>departure7.
     bind (add_days return_date_obj 7) (\<lambda>return7.
     bind (add_days departure_date_obj 14) (\<lambda>departure14.
     bind (add_days return_date_obj 14) (\<lambda>return14.
     bind (get_best_flights (w_json_loads w) (w_py_hash w) (w_random w) (w_flight_reply w)
             (strftime_ymd departure_date_obj) (get_city_code (ustr origin'))
             (get_city_code (ustr destination')) (Some (strftime_ymd return_date_obj)) 3)
       (\<lambda>flight_options.
     bind (create_itinerary_suggestions (w_set_order w) (w_places_pool w) num_days) (\<lambda>itinerary.
     bind (get_month_name travel_month) (\<lambda>month_name.
       Inr \<lparr>plan_destination = destination',
            plan_origin = origin',
            plan_duration = str_int num_days @ '' days'',
            plan_travel_month = month_name,
            plan_cultural_context = generate_cultural_context destination' (w_llm_reply w),
            plan_weather = weather_info,
            plan_suggested_dates =
              [\<lparr>period = ''Suggested Dates'',
                start_date = strftime_long departure_date_obj,
                end_date = strftime_long return_date_obj\<rparr>,
               \<lparr>period = ''Alternative (+1 week)'',
                start_date = strftime_long departure7,
                end_date = strftime_long return7\<rparr>,
               \<lparr>period = ''Alternative (+2 weeks)'',
                start_date = strftime_long departure14,
                end_date = strftime_long return14\<rparr>],
            plan_flights = flight_options,
            plan_itinerary = itinerary,
            plan_generated_at = w_now w,
            plan_mcp_servers_used =
              [(''weather'', ''AccuWeather MCP (@timlukahorstmann/mcp-weather)''),
               (''flights'', ''Kiwi Travel MCP (https://mcp.kiwi.com)''),
               (''places'', ''Mock Data (No MCP server available)'')]\<rparr>))))))))))"

section \<open>Properties of the string functions\<close>

lemma starts_with_append: "starts_with p s = (\<exists>r. s = p @ r)"
  by (induction p s rule: starts_with.induct) auto

lemma contains_iff: "contains sub s = (\<exists>a b. s = a @ sub @ b)"
proof (induction s)
  case Nil
  then show ?case by auto
next
  case (Cons c cs)
  show ?case
  proof
    assume "contains sub (c # cs)"
    then consider "starts_with sub (c # cs)" | "contains sub cs" by auto
    then show "\<exists>a b. c # cs = a @ sub @ b"
    proof cases
      case 1
      then obtain r where "c # cs = sub @ r" by (auto simp: starts_with_append)
      then have "c # cs = [] @ sub @ r" by simp
      then show ?thesis by blast
    next
      case 2
      then obtain a b where "cs = a @ sub @ b" using Cons.IH by auto
      then have "c # cs = (c # a) @ sub @ b" by simp
      then show ?thesis by blast
    qed
  next
    assume "\<exists>a b. c # cs = a @ sub @ b"
    then obtain a b where ab: "c # cs = a @ sub @ b" by auto
    show "contains sub (c # cs)"
    proof (cases a)
      case Nil
      with ab have "starts_with sub (c # cs)" by (auto simp: starts_with_append)
      then show ?thesis by simp
    next
      case (Cons x a')
      with ab have "cs = a' @ sub @ b" by simp
      then have "contains sub cs" using Cons.IH by auto
      then show ?thesis by simp
    qed
  qed
qed

lemma contains_trans:
  assumes "contains p q" and "contains q s"
  shows "contains p s"
proof -
  from assms(1) obtain a b where q: "q = a @ p @ b" by (auto simp: contains_iff)
  from assms(2) obtain c d where "s = c @ q @ d" by (auto simp: contains_iff)
  with q have "s = (c @ a) @ p @ (b @ d)" by simp
  then show ?thesis unfolding contains_iff by blast
qed

lemma cloudy_in_partly_cloudy: "contains ''cloudy'' ''partly cloudy''"
  by simp

section \<open>The description extractor never answers partly cloudy\<close>

text \<open>
  C10, as the claim states it, fails in its middle clause: a text that contains
  \<open>partly cloudy\<close> does not always give \<open>cloudy\<close>, since \<open>sunny\<close> stands before
  \<open>cloudy\<close> in the list of conditions.
\<close>

theorem extract_description_sunny_before_cloudy:
  "contains ''partly cloudy'' (lower ''Sunny, later partly cloudy'') \<and>
   extract_description ''Sunny, later partly cloudy'' = ''sunny'' \<and>
   extract_description ''Sunny, later partly cloudy'' \<noteq> ''cloudy''"
  by (simp add: extract_description_def conditions_def lower_def lower_char_def
      ascii_upper_def ascii_lower_def latin_upper_def latin_lower_def)

text \<open>
  C10, amended. For every text, \<open>_extract_description\<close> does not return
  \<open>partly cloudy\<close>: a text whose lower-case form contains \<open>partly cloudy\<close> contains
  \<open>cloudy\<close>, which the loop meets before \<open>partly cloudy\<close>; such a text gives \<open>sunny\<close>
  when it contains \<open>sunny\<close> as well, and \<open>cloudy\<close> when it does not. The result is one
  of sunny, cloudy, rainy, clear, overcast, stormy or the default \<open>moderate weather\<close>.
\<close>

theorem extract_description_never_partly_cloudy:
  "extract_description text \<noteq> ''partly cloudy'' \<and>
   extract_description text \<in> {''sunny'', ''cloudy'', ''rainy'', ''clear'', ''overcast'',
                                ''stormy'', ''moderate weather''} \<and>
   (contains ''partly cloudy'' (lower text) \<longrightarrow>
      extract_description text
        = (if contains ''sunny'' (lower text) then ''sunny'' else ''cloudy''))"
proof (cases "contains ''partly cloudy'' (lower text)")
  case True
  then have "contains ''cloudy'' (lower text)"
    using contains_trans [OF cloudy_in_partly_cloudy] by blast
  then show ?thesis
    by (simp add: extract_description_def conditions_def)
next
  case False
  then show ?thesis
    by (simp add: extract_description_def conditions_def)
qed

theorem extract_description_never_partly_cloudy_witness:
  "contains ''partly cloudy'' (lower ''Partly Cloudy, 22 degrees'') \<and>
   extract_description ''Partly Cloudy, 22 degrees'' = ''cloudy''"
  using extract_description_never_partly_cloudy [of "''Partly Cloudy, 22 degrees''"]
  by (simp add: extract_description_def conditions_def lower_def lower_char_def
      ascii_upper_def ascii_lower_def latin_upper_def latin_lower_def)

section \<open>A failed call of the weather server gives the synthetic reading\<close>

lemma mock_source_not_mcp:
  "\<not> contains ''MCP'' (source (get_mock_current_weather c))"
  by (simp add: get_mock_current_weather_def)

text \<open>
  C5. When the session with the weather server raises, a time-out included,
  \<open>get_current_weather\<close> returns and does not raise, for every city, every unit and
  either configuration of the tool. What it returns is the synthetic reading: its
  source is the mock label, which does not contain \<open>MCP\<close>, with 24.5 degrees, 65 percent
  humidity and a wind speed of 12.5.
\<close>

theorem transport_failure_gives_mock_weather:
  "get_current_weather tool (Raises e) city' units' = Inr (get_mock_current_weather city') \<and>
   source (get_mock_current_weather city') = ''Mock Data (AccuWeather API key not configured)'' \<and>
   \<not> contains ''MCP'' (source (get_mock_current_weather city')) \<and>
   temperature_celsius (get_mock_current_weather city') = 24.5 \<and>
   humidity (get_mock_current_weather city') = 65 \<and>
   wind_speed (get_mock_current_weather city') = 12.5"
  by (simp add: get_current_weather_def call_mcp_weather_def get_weather_def try_except_def
      get_mock_current_weather_def)

theorem transport_failure_gives_mock_weather_witness:
  "get_current_weather (weather_tool_init (Some ''k3y'')) (Raises TimeoutError) ''Paris'' ''metric''
     = Inr (get_mock_current_weather ''Paris'') \<and>
   get_current_weather (weather_tool_init (Some ''k3y'')) (Raises ConnectionError) ''Paris''
     ''metric'' = Inr (get_mock_current_weather ''Paris'') \<and>
   use_mock (weather_tool_init (Some ''k3y'')) = False"
  using transport_failure_gives_mock_weather
      [of "weather_tool_init (Some ''k3y'')" TimeoutError "''Paris''" "''metric''"]
    transport_failure_gives_mock_weather
      [of "weather_tool_init (Some ''k3y'')" ConnectionError "''Paris''" "''metric''"]
  by (simp add: weather_tool_init_def)

section \<open>The forecast in the last days of December\<close>

text \<open>
  C1. The claim is that \<open>get_forecast\<close> never raises, for every current date. With a
  reading from the server and the 29th of December as the current date, the first round
  of the loop asks for \<open>replace(month=13, day=1)\<close>, and \<open>get_forecast\<close> ends in
  ValueError.
\<close>

theorem get_forecast_december_raises:
  "get_forecast (weather_tool_init (Some ''k3y''))
     (Result (Items [TextContent ''Sunny, 22 degrees'']))
     \<lparr>year = 2025, month = 12, mday = 29\<rparr> ''Paris'' 1 = Inl ValueError"
  by (simp add: get_forecast_def get_current_weather_def weather_tool_init_def
      call_mcp_weather_def get_weather_def try_except_def parse_mcp_response_def bind_def
      real_forecast_day_def replace_month_day_def valid_date_def Let_def)

section \<open>The weather extractors take the first match\<close>

text \<open>
  \<open>re.search\<close> answers at the leftmost position where the pattern matches.
\<close>

lemma re_search_here: "m t = Some g \<Longrightarrow> re_search m t = Some g"
  by (cases t) simp_all

lemma re_search_skip:
  "\<forall>k < length a. m (drop k (a @ t)) = None \<Longrightarrow> re_search m (a @ t) = re_search m t"
proof (induction a)
  case Nil
  then show ?case by simp
next
  case (Cons c a)
  from Cons.prems have "m (drop 0 ((c # a) @ t)) = None" by blast
  then have here: "m (c # a @ t) = None" by simp
  have "\<forall>k < length a. m (drop k (a @ t)) = None"
  proof (intro allI impI)
    fix k assume "k < length a"
    then have "m (drop (Suc k) ((c # a) @ t)) = None" using Cons.prems by auto
    then show "m (drop k (a @ t)) = None" by simp
  qed
  then show ?case using Cons.IH here by simp
qed

lemma re_search_first:
  assumes "text = a @ t" and "m t = Some g" and "\<forall>k < length a. m (drop k text) = None"
  shows "re_search m text = Some g"
  using assms re_search_skip [of a m t] re_search_here [of m t g] by simp

lemma match_22: "match_digits_then degree_C (''22'' @ degree_C @ b) = Some ''22''"
  by (simp add: match_digits_then_def degree_C_def is_digit_def)

lemma match_60: "match_digits_then ''%'' (''60%'' @ b) = Some ''60''"
  by (simp add: match_digits_then_def is_digit_def)

lemma match_5: "match_wind (''5 m/s'' @ b) = Some (''5'', [])"
  by (simp add: match_wind_def is_digit_def is_space_def)

text \<open>
  C8, as the claim states it, fails: a text can contain the tokens \<open>22\<degree>C\<close>, \<open>60%\<close>
  and \<open>5 m/s\<close> and the word \<open>cloudy\<close> after other tokens of the same kinds. Each
  extractor takes the first match of its pattern, and \<open>sunny\<close> is tested before
  \<open>cloudy\<close>, so this text gives 18, 40, 3 and \<open>sunny\<close>.
\<close>

theorem earlier_tokens_win:
  "contains (''22'' @ degree_C)
     (''sunny 18'' @ degree_C @ '' 40% 3 m/s, cloudy 22'' @ degree_C @ '' 60% 5 m/s'') \<and>
   contains ''60%''
     (''sunny 18'' @ degree_C @ '' 40% 3 m/s, cloudy 22'' @ degree_C @ '' 60% 5 m/s'') \<and>
   contains ''5 m/s''
     (''sunny 18'' @ degree_C @ '' 40% 3 m/s, cloudy 22'' @ degree_C @ '' 60% 5 m/s'') \<and>
   contains ''cloudy''
     (''sunny 18'' @ degree_C @ '' 40% 3 m/s, cloudy 22'' @ degree_C @ '' 60% 5 m/s'') \<and>
   extract_temperature
     (''sunny 18'' @ degree_C @ '' 40% 3 m/s, cloudy 22'' @ degree_C @ '' 60% 5 m/s'')
     ''metric'' = 18 \<and>
   extract_humidity
     (''sunny 18'' @ degree_C @ '' 40% 3 m/s, cloudy 22'' @ degree_C @ '' 60% 5 m/s'') = 40 \<and>
   extract_wind_speed
     (''sunny 18'' @ degree_C @ '' 40% 3 m/s, cloudy 22'' @ degree_C @ '' 60% 5 m/s'') = 3 \<and>
   extract_description
     (''sunny 18'' @ degree_C @ '' 40% 3 m/s, cloudy 22'' @ degree_C @ '' 60% 5 m/s'') =
     ''sunny'' \<and>
   \<not> contains ''cloudy'' (extract_description
     (''sunny 18'' @ degree_C @ '' 40% 3 m/s, cloudy 22'' @ degree_C @ '' 60% 5 m/s''))"
  by (simp add: extract_temperature_def extract_humidity_def extract_wind_speed_def
      extract_description_def conditions_def match_digits_then_def match_wind_def
      degree_C_def is_digit_def is_space_def lower_def lower_char_def
      ascii_upper_def ascii_lower_def latin_upper_def latin_lower_def
      dec_value_def digit_val_def)

text \<open>
  C8, amended. For every text in which the leftmost match of \<open>(\d+)\<degree>C\<close> is the token
  \<open>22\<degree>C\<close>, the leftmost match of \<open>(\d+)%\<close> is the token \<open>60%\<close>, the leftmost match
  of the wind pattern in the lower-case form of the text is \<open>5 m/s\<close>, and whose
  lower-case form contains \<open>cloudy\<close> and does not contain \<open>sunny\<close>, the extractors return
  the temperature 22.0, the humidity 60, the wind speed 5.0 and the description
  \<open>cloudy\<close>. That a match is the leftmost one is stated as: the text is \<open>a\<close>, the token,
  \<open>b\<close>, and the pattern matches at no position inside \<open>a\<close>. The numbers 22, 60 and 5 are
  floats of Python exactly.
\<close>

theorem first_tokens_extracted:
  assumes "text = a1 @ ''22'' @ degree_C @ b1"
    and "\<forall>k < length a1. match_digits_then degree_C (drop k text) = None"
    and "text = a2 @ ''60%'' @ b2"
    and "\<forall>k < length a2. match_digits_then ''%'' (drop k text) = None"
    and "lower text = a3 @ ''5 m/s'' @ b3"
    and "\<forall>k < length a3. match_wind (drop k (lower text)) = None"
    and "contains ''cloudy'' (lower text)"
    and "\<not> contains ''sunny'' (lower text)"
  shows "extract_temperature text ''metric'' = 22 \<and> extract_humidity text = 60 \<and>
         extract_wind_speed text = 5 \<and> extract_description text = ''cloudy'' \<and>
         contains ''cloudy'' (extract_description text)"
proof -
  have "re_search (match_digits_then degree_C) text = Some ''22''"
    using assms(1) match_22 assms(2) by (rule re_search_first)
  then have t: "extract_temperature text ''metric'' = 22"
    by (simp add: extract_temperature_def dec_value_def digit_val_def)
  have "re_search (match_digits_then ''%'') text = Some ''60''"
    using assms(3) match_60 assms(4) by (rule re_search_first)
  then have h: "extract_humidity text = 60"
    by (simp add: extract_humidity_def dec_value_def digit_val_def)
  have "re_search match_wind (lower text) = Some (''5'', [])"
    using assms(5) match_5 assms(6) by (rule re_search_first)
  then have w: "extract_wind_speed text = 5"
    by (simp add: extract_wind_speed_def dec_value_def digit_val_def)
  have d: "extract_description text = ''cloudy''"
    using assms(7,8) by (simp add: extract_description_def conditions_def)
  show ?thesis using t h w d by simp
qed

theorem first_tokens_extracted_witness:
  "extract_temperature (''22'' @ degree_C @ '' 60% 5 m/s cloudy'') ''metric'' = 22 \<and>
   extract_humidity (''22'' @ degree_C @ '' 60% 5 m/s cloudy'') = 60 \<and>
   extract_wind_speed (''22'' @ degree_C @ '' 60% 5 m/s cloudy'') = 5 \<and>
   extract_description (''22'' @ degree_C @ '' 60% 5 m/s cloudy'') = ''cloudy'' \<and>
   contains ''cloudy'' (extract_description (''22'' @ degree_C @ '' 60% 5 m/s cloudy''))"
proof -
  let ?t = "''22'' @ degree_C @ '' 60% 5 m/s cloudy''"
  have low: "lower ?t = ''22'' @ [CHR 0xB0, CHR ''c''] @ '' 60% 5 m/s cloudy''"
    by (simp add: degree_C_def lower_def lower_char_def
        ascii_upper_def ascii_lower_def latin_upper_def latin_lower_def)
  have h1: "?t = [] @ ''22'' @ degree_C @ '' 60% 5 m/s cloudy''" by simp
  have h2: "\<forall>k < length ([] :: string). match_digits_then degree_C (drop k ?t) = None"
    by simp
  have h3: "?t = (''22'' @ degree_C @ '' '') @ ''60%'' @ '' 5 m/s cloudy''" by simp
  have h4: "\<forall>k < length (''22'' @ degree_C @ '' '').
              match_digits_then ''%'' (drop k ?t) = None"
    by (simp add: degree_C_def All_less_Suc match_digits_then_def is_digit_def)
  have h5: "lower ?t = (''22'' @ [CHR 0xB0, CHR ''c''] @ '' 60% '') @ ''5 m/s'' @ '' cloudy''"
    unfolding low by simp
  have h6: "\<forall>k < length (''22'' @ [CHR 0xB0, CHR ''c''] @ '' 60% '').
              match_wind (drop k (lower ?t)) = None"
    unfolding low by (simp add: All_less_Suc match_wind_def is_digit_def is_space_def)
  have h7: "contains ''cloudy'' (lower ?t)" unfolding low by simp
  have h8: "\<not> contains ''sunny'' (lower ?t)" unfolding low by simp
  show ?thesis by (rule first_tokens_extracted [OF h1 h2 h3 h4 h5 h6 h7 h8])
qed

section \<open>The synthetic flights\<close>

lemma randint_range:
  assumes "a \<le> b"
  shows "a \<le> fst (randint a b g) \<and> fst (randint a b g) \<le> b"
proof -
  have "0 < nat (b - a + 1)" using assms by simp
  then have "g 0 mod nat (b - a + 1) < nat (b - a + 1)" by (rule mod_less_divisor)
  then have "int (g 0 mod nat (b - a + 1)) \<le> b - a" by linarith
  then show ?thesis by (simp add: randint_def)
qed

lemma choice_member: "xs \<noteq> [] \<Longrightarrow> fst (choice xs g) \<in> set xs"
  by (simp add: choice_def)

lemma mock_flight_price:
  "\<exists>k. - 100 \<le> k \<and> k \<le> 200 \<and> price (fst (mock_flight ff ft dd i g)) = real_of_int (300 + k)"
proof -
  obtain r g1 where r: "randint (- 100) 200 g = (r, g1)" by (cases "randint (- 100) 200 g")
  have "- 100 \<le> r \<and> r \<le> 200" using randint_range [of "- 100" 200 g] r by simp
  moreover have "price (fst (mock_flight ff ft dd i g)) = real_of_int (300 + r)"
    by (simp add: mock_flight_def r Let_def split: prod.splits)
  ultimately show ?thesis by blast
qed

lemma mock_flight_stops: "stops (fst (mock_flight ff ft dd i g)) \<in> {0, 1}"
proof -
  have "stops (fst (mock_flight ff ft dd i g)) \<in> set [0, 0, 1]"
    using choice_member [of "[0, 0, 1 :: int]"]
    by (simp add: mock_flight_def Let_def split: prod.splits) (metis fst_conv)
  then show ?thesis by auto
qed

lemma mock_flight_departure_time:
  "departure_time (fst (mock_flight ff ft dd i g)) = zero_pad 2 (6 + 3 * i) @ '':00''"
  by (simp add: mock_flight_def Let_def mult.commute split: prod.splits)

lemma length_mock_flights_loop: "length (mock_flights_loop ff ft dd is g) = length is"
  by (induction "is" arbitrary: g) (auto simp: Let_def split: prod.splits)

lemma mock_flights_loop_all:
  assumes "\<And>i g. P (fst (mock_flight ff ft dd i g))"
  shows "\<forall>f \<in> set (mock_flights_loop ff ft dd is g). P f"
proof (induction "is" arbitrary: g)
  case Nil
  then show ?case by simp
next
  case (Cons i "is")
  obtain f g' where fg: "mock_flight ff ft dd i g = (f, g')" by (cases "mock_flight ff ft dd i g")
  have "P f" using assms [of i g] fg by simp
  then show ?case using Cons.IH [of g'] fg by simp
qed

lemma mock_flights_loop_nth:
  assumes "\<And>i g. Q i (fst (mock_flight ff ft dd i g))" and "k < length is"
  shows "Q (is ! k) (mock_flights_loop ff ft dd is g ! k)"
  using assms(2)
proof (induction "is" arbitrary: g k)
  case Nil
  then show ?case by simp
next
  case (Cons i "is")
  obtain f g' where fg: "mock_flight ff ft dd i g = (f, g')" by (cases "mock_flight ff ft dd i g")
  have "Q i f" using assms(1) [of i g] fg by simp
  then show ?case using Cons.IH [of _ g'] Cons.prems fg by (cases k) auto
qed

text \<open>
  C3. For every origin, destination and departure date, and whatever the random source
  gives, the synthetic generator returns five outbound flights, in the order of their
  prices. Every price is 300 plus an integer from -100 to 200, so it lies between 200 and
  500 and is not negative; every number of stops is 0 or 1; and before the sort the
  flight of round \<open>i\<close> departs at hour \<open>6 + 3 * i\<close>. That the integer is drawn uniformly is
  a statement about probabilities, which the model of the random source does not carry.
\<close>

theorem mock_flights_sorted_and_bounded:
  "outbound_flights (generate_mock_flights g ff ft dd rd)
     = map Generated (sort_key price (unsorted_mock_flights g ff ft dd)) \<and>
   length (outbound_flights (generate_mock_flights g ff ft dd rd)) = 5 \<and>
   sorted (map price (sort_key price (unsorted_mock_flights g ff ft dd))) \<and>
   (\<forall>f \<in> set (sort_key price (unsorted_mock_flights g ff ft dd)).
      (\<exists>k. - 100 \<le> k \<and> k \<le> 200 \<and> price f = real_of_int (300 + k)) \<and>
      200 \<le> price f \<and> price f \<le> 500 \<and> 0 \<le> price f \<and> stops f \<in> {0, 1}) \<and>
   (\<forall>i < 5. departure_time (unsorted_mock_flights g ff ft dd ! i)
               = zero_pad 2 (6 + 3 * i) @ '':00'')"
proof -
  let ?us = "unsorted_mock_flights g ff ft dd"
  have out: "outbound_flights (generate_mock_flights g ff ft dd rd) = map Generated (sort_key price ?us)"
    by (simp add: generate_mock_flights_def Let_def)
  have len: "length ?us = 5"
    unfolding unsorted_mock_flights_def length_mock_flights_loop by simp
  have srt: "sorted (map price (sort_key price ?us))" by (rule sorted_sort_key)
  have pr: "\<forall>f \<in> set ?us. \<exists>k. - 100 \<le> k \<and> k \<le> 200 \<and> price f = real_of_int (300 + k)"
    unfolding unsorted_mock_flights_def
    by (rule mock_flights_loop_all) (rule mock_flight_price)
  have st: "\<forall>f \<in> set ?us. stops f \<in> {0, 1}"
    unfolding unsorted_mock_flights_def
    by (rule mock_flights_loop_all) (rule mock_flight_stops)
  have all: "(\<exists>k. - 100 \<le> k \<and> k \<le> 200 \<and> price f = real_of_int (300 + k)) \<and>
      200 \<le> price f \<and> price f \<le> 500 \<and> 0 \<le> price f \<and> stops f \<in> {0, 1}"
    if "f \<in> set (sort_key price ?us)" for f
  proof -
    from that have f: "f \<in> set ?us" by simp
    then obtain k where k: "- 100 \<le> k" "k \<le> 200" "price f = real_of_int (300 + k)"
      using pr by blast
    then have "200 \<le> price f \<and> price f \<le> 500 \<and> 0 \<le> price f" by simp
    then show ?thesis using k st f by blast
  qed
  have hours: "departure_time (?us ! i) = zero_pad 2 (6 + 3 * i) @ '':00''" if "i < 5" for i
  proof -
    have "departure_time (mock_flights_loop ff ft dd [0, 1, 2, 3, 4] g ! i)
            = zero_pad 2 (6 + 3 * ([0, 1, 2, 3, 4] ! i)) @ '':00''"
      by (rule mock_flights_loop_nth [where Q = "\<lambda>i f. departure_time f = zero_pad 2 (6 + 3 * i) @ '':00''"])
         (use that in \<open>simp_all add: mock_flight_departure_time\<close>)
    moreover have "[0, 1, 2, 3, 4] ! i = i"
      using that by (auto simp: less_Suc_eq numeral_eq_Suc nth_Cons')
    ultimately show ?thesis unfolding unsorted_mock_flights_def by (simp only:)
  qed
  show ?thesis using out len srt all hours by simp
qed

theorem mock_flights_sorted_and_bounded_witness:
  "map price (sort_key price
     (unsorted_mock_flights (\<lambda>n. 37 * n + 11) (ustr ''NYC'') (ustr ''PAR'') ''2026-01-10''))
     = [211, 243, 322, 354, 433] \<and>
   map departure_time (unsorted_mock_flights (\<lambda>n. 37 * n + 11) (ustr ''NYC'') (ustr ''PAR'') ''2026-01-10'')
     = [''06:00'', ''09:00'', ''12:00'', ''15:00'', ''18:00''] \<and>
   length (outbound_flights
     (generate_mock_flights (\<lambda>n. 37 * n + 11) (ustr ''NYC'') (ustr ''PAR'') ''2026-01-10'' None)) = 5"
  using mock_flights_sorted_and_bounded
    [of "\<lambda>n. 37 * n + 11" "ustr ''NYC''" "ustr ''PAR''" "''2026-01-10''" None]
  by (simp add: unsorted_mock_flights_def mock_flight_def randint_def choice_def Let_def
      zero_pad_def str_nat.simps digit_char_def)

section \<open>The return flights of the synthetic generator\<close>

text \<open>
  C9. With a return date, a string that is not empty, the field \<open>return_flights\<close> of the
  synthetic result is the first three of its outbound flights, which are the generated
  flights in the order of their prices; nothing else is generated. Without a return date
  the result has no \<open>return_flights\<close>.
\<close>

theorem return_flights_reuse_outbound:
  "(\<forall>d. rd = Some d \<and> d \<noteq> [] \<longrightarrow>
      return_flights (generate_mock_flights g ff ft dd rd)
        = Some (take 3 (outbound_flights (generate_mock_flights g ff ft dd rd)))) \<and>
   (rd = None \<longrightarrow> return_flights (generate_mock_flights g ff ft dd rd) = None) \<and>
   outbound_flights (generate_mock_flights g ff ft dd rd)
     = map Generated (sort_key price (unsorted_mock_flights g ff ft dd))"
  by (simp add: generate_mock_flights_def Let_def truthy_def)

theorem return_flights_reuse_outbound_witness:
  "return_flights (generate_mock_flights (\<lambda>n. 37 * n + 11) (ustr ''NYC'') (ustr ''PAR'') ''2026-01-10''
      (Some ''2026-01-15''))
     = Some (take 3 (outbound_flights (generate_mock_flights (\<lambda>n. 37 * n + 11) (ustr ''NYC'') (ustr ''PAR'')
         ''2026-01-10'' (Some ''2026-01-15'')))) \<and>
   return_flights (generate_mock_flights (\<lambda>n. 37 * n + 11) (ustr ''NYC'') (ustr ''PAR'') ''2026-01-10'' None)
     = None"
  using return_flights_reuse_outbound
      [of "Some ''2026-01-15''" "\<lambda>n. 37 * n + 11" "ustr ''NYC''" "ustr ''PAR''" "''2026-01-10''"]
    return_flights_reuse_outbound
      [of None "\<lambda>n. 37 * n + 11" "ustr ''NYC''" "ustr ''PAR''" "''2026-01-10''"]
  by simp

section \<open>A payload from which nothing can be extracted\<close>

text \<open>
  The flight adapter: a text without a price token that is not JSON, or whose JSON value
  has no list of flights, gives the synthetic flights.
\<close>

lemma no_kiwi_flight_from_string: "parse_single_kiwi_flight h (JStr s) ff ft = None"
  by (simp add: parse_single_kiwi_flight_def single_kiwi_flight_def)

lemma map_filter_chars:
  "List.map_filter (\<lambda>fl. parse_single_kiwi_flight h fl ff ft) (map (\<lambda>c. JStr [c]) cs) = []"
  by (induction cs) (simp_all add: List.map_filter_simps no_kiwi_flight_from_string)

lemma kiwi_flights_of_no_items:
  assumes "json_flight_items j = []"
  shows "kiwi_flights_of h j ff ft = Inr [] \<or> (\<exists>e. kiwi_flights_of h j ff ft = Inl e)"
proof (cases j)
  case (JObj kv)
  show ?thesis
  proof (cases "map_of kv ''data''")
    case None
    then show ?thesis using JObj by (simp add: kiwi_flights_of_def)
  next
    case (Some d)
    then show ?thesis using JObj assms
      by (cases d)
         (simp_all add: kiwi_flights_of_def json_flight_items_def first_five_def bind_def
            map_filter_chars List.map_filter_simps)
  qed
qed (simp_all add: kiwi_flights_of_def)

lemma kiwi_response_no_data:
  assumes "findall_prices (item_text item) = []"
    and "case json_loads (item_text item) of None \<Rightarrow> True
         | Some j \<Rightarrow> json_flight_items j = []"
  shows "parse_kiwi_response json_loads h g (Items (item # rest)) ff ft dd rd
           = Inr (generate_mock_flights g ff ft dd rd)"
proof (cases "json_loads (item_text item)")
  case None
  then show ?thesis using assms(1)
    by (simp add: parse_kiwi_response_def kiwi_response_body_def try_except_def Let_def
        parse_text_response_def)
next
  case (Some j)
  then have "json_flight_items j = []" using assms(2) by simp
  from kiwi_flights_of_no_items [OF this, of h ff ft] show ?thesis
    using Some
    by (auto simp: parse_kiwi_response_def kiwi_response_body_def try_except_def Let_def bind_def)
qed

lemma search_flights_no_data:
  assumes "findall_prices (item_text item) = []"
    and "case json_loads (item_text item) of None \<Rightarrow> True
         | Some j \<Rightarrow> json_flight_items j = []"
  shows "search_flights json_loads h g (Result (Items (item # rest))) dd ff ft rd
           = Inr (generate_mock_flights g ff ft dd rd)"
  using kiwi_response_no_data [where json_loads = json_loads and item = item, OF assms]
  by (simp add: search_flights_def call_kiwi_mcp_def connect_and_search_def try_except_def)

lemma parse_mcp_response_defaults:
  assumes "re_search (match_digits_then degree_C) (item_text item) = None"
    and "re_search (match_digits_then degree_F) (item_text item) = None"
    and "re_search (match_digits_then ''%'') (item_text item) = None"
    and "re_search match_wind (lower (item_text item)) = None"
    and "\<forall>c \<in> set conditions. \<not> contains c (lower (item_text item))"
  shows "parse_mcp_response (Items (item # rest)) location ''metric''
     = \<lparr>temperature_celsius = 20, temperature_fahrenheit = Some 68,
        description = ''moderate weather'', humidity = 65, wind_speed = 10,
        city = location, raw_data = Some (item_text item), feels_like_celsius = None,
        source = ''MCP Weather Server (AccuWeather)'', units = Some ''metric''\<rparr>"
  using assms
  by (simp add: parse_mcp_response_def Let_def extract_temperature_def extract_humidity_def
      extract_wind_speed_def extract_description_def conditions_def)

lemma get_current_weather_defaults:
  assumes "re_search (match_digits_then degree_C) (item_text item) = None"
    and "re_search (match_digits_then degree_F) (item_text item) = None"
    and "re_search (match_digits_then ''%'') (item_text item) = None"
    and "re_search match_wind (lower (item_text item)) = None"
    and "\<forall>c \<in> set conditions. \<not> contains c (lower (item_text item))"
    and "\<not> use_mock tool"
  shows "get_current_weather tool (Result (Items (item # rest))) location ''metric''
     = Inr \<lparr>temperature_celsius = 20, temperature_fahrenheit = Some 68,
        description = ''moderate weather'', humidity = 65, wind_speed = 10,
        city = location, raw_data = Some (item_text item), feels_like_celsius = None,
        source = ''MCP Weather Server (AccuWeather)'', units = Some ''metric''\<rparr>"
  using assms(6) parse_mcp_response_defaults [OF assms(1-5)]
  by (simp add: get_current_weather_def call_mcp_weather_def get_weather_def try_except_def)

text \<open>
  C4. The claim is that a payload from which nothing can be extracted comes back tagged
  as synthetic data. The flight adapter does that (\<open>search_flights_no_data\<close>). The
  weather normalizer does not: for the text \<open>no data\<close>, which has no temperature, no
  percentage, no speed and no condition keyword, \<open>get_current_weather\<close> returns the
  record of the four defaults, tagged with the server.
\<close>

theorem weather_without_data_keeps_server_source:
  "get_current_weather (weather_tool_init (Some ''k3y'')) (Result (Items [TextContent ''no data'']))
      ''Paris'' ''metric''
     = Inr \<lparr>temperature_celsius = 20, temperature_fahrenheit = Some 68,
        description = ''moderate weather'', humidity = 65, wind_speed = 10,
        city = ''Paris'', raw_data = Some ''no data'', feels_like_celsius = None,
        source = ''MCP Weather Server (AccuWeather)'', units = Some ''metric''\<rparr> \<and>
   re_search (match_digits_then degree_C) ''no data'' = None \<and>
   re_search (match_digits_then degree_F) ''no data'' = None \<and>
   re_search (match_digits_then ''%'') ''no data'' = None \<and>
   re_search match_wind (lower ''no data'') = None"
  by (simp add: get_current_weather_def call_mcp_weather_def get_weather_def try_except_def
      weather_tool_init_def parse_mcp_response_def Let_def extract_temperature_def
      extract_humidity_def extract_wind_speed_def extract_description_def conditions_def
      match_digits_then_def match_wind_def is_digit_def is_space_def degree_C_def degree_F_def
      lower_def lower_char_def ascii_upper_def ascii_lower_def latin_upper_def latin_lower_def)

section \<open>The plan\<close>

text \<open>
  What a plan looks like when \<open>create_travel_plan\<close> returns one: the itinerary has one
  entry for each day, the forecast has an entry for each of the first five days, at most
  three outbound flights are kept, and the three date windows start two days from now,
  one week later and two weeks later.
\<close>

lemma sequence_length: "sequence ms = Inr vs \<Longrightarrow> length vs = length ms"
  by (induction ms arbitrary: vs) (auto split: sum.splits)

lemma sequence_returns:
  "\<forall>m \<in> set ms. \<exists>v. m = Inr v \<Longrightarrow> \<exists>vs. sequence ms = Inr vs"
  by (induction ms) auto

lemma length_range: "length [0..n - 1] = nat n"
  by simp

lemma get_forecast_length:
  assumes "get_forecast tool reply now city' n = Inr fc"
  shows "length fc = nat n"
proof -
  from assms obtain ms where "sequence ms = Inr fc" and "length ms = length [0..n - 1]"
    by (auto simp add: get_forecast_def get_mock_forecast_def bind_def
        split: sum.splits if_splits)
  then show ?thesis using sequence_length [of ms fc] by simp
qed

lemma py_slice_first: "length (py_slice xs None (Some 3)) \<le> 3"
  by (simp add: py_slice_def slice_bound_def)

lemma get_best_flights_length:
  assumes "get_best_flights jl ph g reply dd ff ft rd 3 = Inr fl"
  shows "length (outbound_flights fl) \<le> 3"
  using assms py_slice_first
  by (auto simp add: get_best_flights_def bind_def split: sum.splits)

lemma create_itinerary_length:
  assumes "create_itinerary_suggestions so ps n = Inr it"
  shows "length it = nat n"
  using assms by (auto simp add: create_itinerary_suggestions_def Let_def split: if_splits)

lemma create_travel_plan_shape:
  assumes "create_travel_plan w tool destination' n m origin' = Inr plan"
  shows "length (plan_itinerary plan) = nat n \<and>
         length (forecast (plan_weather plan)) = nat (min n 5) \<and>
         length (outbound_flights (plan_flights plan)) \<le> 3 \<and>
         (\<exists>d r d7 r7 d14 r14.
            add_days (w_now w) 2 = Inr d \<and> add_days d n = Inr r \<and>
            add_days d 7 = Inr d7 \<and> add_days r 7 = Inr r7 \<and>
            add_days d 14 = Inr d14 \<and> add_days r 14 = Inr r14 \<and>
            map start_date (plan_suggested_dates plan)
              = [strftime_long d, strftime_long d7, strftime_long d14] \<and>
            map end_date (plan_suggested_dates plan)
              = [strftime_long r, strftime_long r7, strftime_long r14])"
proof -
  from assms obtain d r wi d7 r7 d14 r14 fl it mn where
    d: "add_days (w_now w) 2 = Inr d" and r: "add_days d n = Inr r" and
    wi: "get_weather_info tool (w_weather_reply w) (w_forecast_reply w) (w_now w)
           destination' n = Inr wi" and
    d7: "add_days d 7 = Inr d7" and r7: "add_days r 7 = Inr r7" and
    d14: "add_days d 14 = Inr d14" and r14: "add_days r 14 = Inr r14" and
    fl: "get_best_flights (w_json_loads w) (w_py_hash w) (w_random w) (w_flight_reply w)
           (strftime_ymd d) (get_city_code (ustr origin')) (get_city_code (ustr destination'))
           (Some (strftime_ymd r)) 3 = Inr fl" and
    it: "create_itinerary_suggestions (w_set_order w) (w_places_pool w) n = Inr it" and
    plan: "plan_weather plan = wi" "plan_flights plan = fl" "plan_itinerary plan = it"
      "map start_date (plan_suggested_dates plan)
         = [strftime_long d, strftime_long d7, strftime_long d14]"
      "map end_date (plan_suggested_dates plan)
         = [strftime_long r, strftime_long r7, strftime_long r14]"
    unfolding create_travel_plan_def bind_def by (auto split: sum.splits)
  from wi obtain fc where
    fc: "get_forecast tool (w_forecast_reply w) (w_now w) destination' (min n 5) = Inr fc" and
    wfc: "forecast wi = fc"
    unfolding get_weather_info_def bind_def by (auto split: sum.splits)
  show ?thesis
    using create_itinerary_length [OF it] get_forecast_length [OF fc]
      get_best_flights_length [OF fl] plan wfc d r d7 r7 d14 r14 by simp
qed

text \<open>
  When it returns one: for a current date that is not in December, or whose forecast
  days stay within the 28th, and far enough from the year 9999, the call returns a plan
  for every number of days from 1 to 30 and every month from 1 to 12, whatever the
  servers answer.
\<close>

lemma year_next_day: "year d \<le> year (next_day d) \<and> year (next_day d) \<le> year d + 1"
  by (simp add: next_day_def)

lemma year_iterate_next_day:
  "year d \<le> year (iterate k next_day d) \<and> year (iterate k next_day d) \<le> year d + int k"
proof (induction k arbitrary: d)
  case 0
  then show ?case by (simp add: iterate.simps)
next
  case (Suc k)
  have "iterate (Suc k) next_day d = iterate k next_day (next_day d)"
    by (simp add: iterate.simps)
  then show ?case using Suc.IH [of "next_day d"] year_next_day [of d] by simp
qed

lemma add_days_returns:
  assumes "0 \<le> k" and "k \<le> 100" and "1 \<le> year d" and "year d + k \<le> 9999"
  shows "\<exists>r. add_days d k = Inr r \<and> year d \<le> year r \<and> year r \<le> year d + k"
  using assms year_iterate_next_day [of d "nat k"]
  by (simp add: add_days_def Let_def)

lemma get_current_weather_returns: "\<exists>cw. get_current_weather tool reply city' units' = Inr cw"
  by (simp add: get_current_weather_def try_except_def split: sum.splits)

lemma mock_source_not_server:
  "\<not> contains ''MCP'' (source (get_mock_current_weather city'))"
  by (simp add: get_mock_current_weather_def)

lemma get_mock_forecast_returns:
  assumes "1 \<le> year now" and "year now + 100 \<le> 9999" and "n \<le> 5"
  shows "\<exists>fc. get_mock_forecast now n = Inr fc"
proof -
  have "\<exists>v. mock_forecast_day now i = Inr v" if "i \<in> set [0..n - 1]" for i
  proof -
    from that assms have "0 \<le> i" "i \<le> 100" "year now + i \<le> 9999" by auto
    from add_days_returns [OF this(1,2) assms(1) this(3)]
    show ?thesis by (auto simp add: mock_forecast_day_def bind_def Let_def)
  qed
  then show ?thesis
    unfolding get_mock_forecast_def by (intro sequence_returns) auto
qed

lemma real_forecast_day_returns:
  assumes "valid_date now" and "0 \<le> i" and "mday now + i \<le> 28 \<or> month now < 12"
  shows "\<exists>v. real_forecast_day cur now i = Inr v"
proof (cases "mday now + i \<le> 28")
  case True
  have "28 \<le> days_in_month (year now) (month now)" by (simp add: days_in_month_def)
  with True assms(1,2) have "valid_date (now\<lparr>month := month now, mday := mday now + i\<rparr>)"
    by (simp add: valid_date_def)
  with True show ?thesis
    by (simp add: real_forecast_day_def replace_day_def replace_month_day_def bind_def Let_def)
next
  case False
  with assms(3) have "month now < 12" by simp
  moreover have "1 \<le> days_in_month (year now) (month now + 1)"
    by (simp add: days_in_month_def)
  ultimately have "valid_date (now\<lparr>month := month now + 1, mday := 1\<rparr>)"
    using assms(1) by (simp add: valid_date_def)
  with False show ?thesis
    by (simp add: real_forecast_day_def replace_month_day_def bind_def Let_def)
qed

lemma get_forecast_returns:
  assumes "valid_date now" and "year now + 100 \<le> 9999" and "n \<le> 5"
    and "month now < 12 \<or> mday now + n - 1 \<le> 28"
  shows "\<exists>fc. get_forecast tool reply now city' n = Inr fc"
proof -
  obtain cw where cw: "get_current_weather tool reply city' ''metric'' = Inr cw"
    using get_current_weather_returns by blast
  show ?thesis
  proof (cases "contains ''MCP'' (source cw)")
    case True
    have "\<exists>v. real_forecast_day cw now i = Inr v" if "i \<in> set [0..n - 1]" for i
    proof -
      from that assms(4) have "0 \<le> i" "mday now + i \<le> 28 \<or> month now < 12" by auto
      from real_forecast_day_returns [OF assms(1) this] show ?thesis .
    qed
    then have "\<exists>fc. sequence (map (real_forecast_day cw now) [0..n - 1]) = Inr fc"
      by (intro sequence_returns) auto
    with cw True show ?thesis by (simp add: get_forecast_def bind_def)
  next
    case False
    from assms(1) have "1 \<le> year now" by (simp add: valid_date_def)
    from get_mock_forecast_returns [OF this assms(2,3)] cw False
    show ?thesis by (simp add: get_forecast_def bind_def)
  qed
qed

lemma get_best_flights_returns: "\<exists>fl. get_best_flights jl ph g reply dd ff ft rd k = Inr fl"
  by (simp add: get_best_flights_def search_flights_def try_except_def bind_def
      split: sum.splits)

lemma create_travel_plan_returns:
  assumes "valid_date (w_now w)" and "year (w_now w) + 100 \<le> 9999"
    and "1 \<le> n" and "n \<le> 30" and "1 \<le> m" and "m \<le> 12"
    and "month (w_now w) < 12 \<or> mday (w_now w) + min n 5 - 1 \<le> 28"
  shows "\<exists>plan. create_travel_plan w tool destination' n m origin' = Inr plan"
proof -
  from assms(1) have y: "1 \<le> year (w_now w)" by (simp add: valid_date_def)
  from add_days_returns [of 2 "w_now w"] y assms(2)
  obtain d where d: "add_days (w_now w) 2 = Inr d"
    and yd: "year (w_now w) \<le> year d" "year d \<le> year (w_now w) + 2" by auto
  from add_days_returns [of n d] yd y assms(2-4)
  obtain r where r: "add_days d n = Inr r"
    and yr: "year d \<le> year r" "year r \<le> year d + n" by auto
  from add_days_returns [of 7 d] yd y assms(2)
  obtain d7 where d7: "add_days d 7 = Inr d7" by auto
  from add_days_returns [of 14 d] yd y assms(2)
  obtain d14 where d14: "add_days d 14 = Inr d14" by auto
  from add_days_returns [of 7 r] yd yr y assms(2-4)
  obtain r7 where r7: "add_days r 7 = Inr r7" by auto
  from add_days_returns [of 14 r] yd yr y assms(2-4)
  obtain r14 where r14: "add_days r 14 = Inr r14" by auto
  obtain cw where cw: "get_current_weather tool (w_weather_reply w) destination' ''metric''
                         = Inr cw"
    using get_current_weather_returns by blast
  obtain fc where fc: "get_forecast tool (w_forecast_reply w) (w_now w) destination' (min n 5)
                         = Inr fc"
    using get_forecast_returns [OF assms(1,2) _ assms(7), of tool "w_forecast_reply w" destination']
    by auto
  obtain fl where fl: "get_best_flights (w_json_loads w) (w_py_hash w) (w_random w)
      (w_flight_reply w) (strftime_ymd d) (get_city_code (ustr origin'))
      (get_city_code (ustr destination')) (Some (strftime_ymd r)) 3 = Inr fl"
    using get_best_flights_returns by blast
  from assms(3) obtain it where
    it: "create_itinerary_suggestions (w_set_order w) (w_places_pool w) n = Inr it"
    by (auto simp add: create_itinerary_suggestions_def Let_def)
  from assms(5,6) obtain mn where mn: "get_month_name m = Inr mn"
    by (auto simp add: get_month_name_def Let_def)
  show ?thesis
    by (simp add: create_travel_plan_def get_weather_info_def bind_def
        d r d7 d14 r7 r14 cw fc fl it mn)
qed

text \<open>
  C6. The claim is that every valid request gets a plan. With a reading from the weather
  server and the 25th of December as the current date, the request for five days in
  Paris does not: the fifth round of the forecast loop asks for
  \<open>replace(month=13, day=1)\<close>, nothing between the loop and the caller catches the
  ValueError, and \<open>create_travel_plan\<close> ends with it, whatever the rest of the
  environment is.
\<close>

theorem create_travel_plan_december_raises:
  "create_travel_plan
     (w\<lparr>w_now := \<lparr>year = 2025, month = 12, mday = 25\<rparr>,
        w_weather_reply := Result (Items [TextContent ''Sunny, 22 degrees'']),
        w_forecast_reply := Result (Items [TextContent ''Sunny, 22 degrees''])\<rparr>)
     (weather_tool_init (Some ''k3y'')) ''Paris'' 5 6 ''NYC'' = Inl ValueError"
proof -
  have a: "add_days \<lparr>year = 2025, month = 12, mday = 25\<rparr> 2
             = Inr \<lparr>year = 2025, month = 12, mday = 27\<rparr>"
    by (simp add: add_days_def iterate.simps next_day_def days_in_month_def Let_def)
  have b: "add_days \<lparr>year = 2025, month = 12, mday = 27\<rparr> 5
             = Inr \<lparr>year = 2026, month = 1, mday = 1\<rparr>"
    by (simp add: add_days_def iterate.simps next_day_def days_in_month_def Let_def)
  have c: "get_forecast (weather_tool_init (Some ''k3y''))
             (Result (Items [TextContent ''Sunny, 22 degrees'']))
             \<lparr>year = 2025, month = 12, mday = 25\<rparr> ''Paris'' 5 = Inl ValueError"
    by (simp add: get_forecast_def get_current_weather_def weather_tool_init_def
        call_mcp_weather_def get_weather_def try_except_def parse_mcp_response_def bind_def
        real_forecast_day_def replace_month_day_def replace_day_def valid_date_def
        days_in_month_def Let_def upto.simps)
  have d: "\<exists>cw. get_current_weather (weather_tool_init (Some ''k3y''))
             (Result (Items [TextContent ''Sunny, 22 degrees''])) ''Paris'' ''metric'' = Inr cw"
    by (simp add: get_current_weather_def weather_tool_init_def
        call_mcp_weather_def get_weather_def try_except_def)
  show ?thesis
    using d by (auto simp add: create_travel_plan_def get_weather_info_def a b c bind_def)
qed

section \<open>The itinerary has one entry per day, with the themes in order\<close>

lemma itinerary_day_simps:
  "day (itinerary_day so ps ppd n d) = d + 1"
  "theme (itinerary_day so ps ppd n d) = get_day_theme d n"
  by (simp_all add: itinerary_day_def Let_def)

lemma map_day_upto: "map (\<lambda>d. d + 1) [0..n - 1] = [1..n::int]"
proof -
  have "length (map (\<lambda>d. d + 1) [0..n - 1]) = length [1..n]" by simp
  moreover have "\<And>k. k < length [1..n] \<Longrightarrow> map (\<lambda>d. d + 1) [0..n - 1] ! k = [1..n] ! k"
    by simp
  ultimately show ?thesis by (metis nth_equalityI)
qed

text \<open>
  C2. For every number of days \<open>n\<close> from 1 to 30 and every pool of places,
  \<open>create_itinerary_suggestions\<close> returns \<open>n\<close> entries, numbered 1 to \<open>n\<close> in order. The
  first entry has the theme \<open>Arrival & City Orientation\<close>, also for one day; the last
  entry has the theme \<open>Final Day Highlights\<close> exactly when there is more than one day;
  every day \<open>d\<close> between them, counted from 0, has the theme \<open>themes ! (d mod 7)\<close>.
\<close>

theorem itinerary_days_and_themes:
  assumes "1 \<le> n" and "n \<le> 30"
  shows "\<exists>it. create_itinerary_suggestions set_order all_places n = Inr it \<and>
           int (length it) = n \<and>
           map day it = [1..n] \<and>
           theme (hd it) = ''Arrival & City Orientation'' \<and>
           (theme (last it) = ''Final Day Highlights'' \<longleftrightarrow> 1 < n) \<and>
           (\<forall>d. 0 < d \<and> d < n - 1 \<longrightarrow> theme (it ! nat d) = themes ! nat (d mod 7))"
proof -
  define ppd where "ppd = max (int (length all_places) div n) 2"
  define it where "it = map (itinerary_day set_order all_places ppd n) [0..n - 1]"
  have run: "create_itinerary_suggestions set_order all_places n = Inr it"
    using assms by (simp add: create_itinerary_suggestions_def it_def ppd_def Let_def)
  have len: "int (length it) = n" using assms by (simp add: it_def)
  have days: "map day it = [1..n]"
    using map_day_upto [of n] by (simp add: it_def itinerary_day_simps comp_def)
  have nth: "theme (it ! nat d) = get_day_theme d n" if "0 \<le> d" "d < n" for d
    using that by (simp add: it_def itinerary_day_simps)
  have ne: "it \<noteq> []" using assms len by auto
  have "hd it = it ! nat 0" using ne by (simp add: hd_conv_nth)
  then have first: "theme (hd it) = ''Arrival & City Orientation''"
    using nth [of 0] assms by (simp add: get_day_theme_def)
  have "length it - 1 = nat (n - 1)" using len by linarith
  then have "last it = it ! nat (n - 1)"
    using ne by (simp add: last_conv_nth)
  then have "theme (last it) = get_day_theme (n - 1) n"
    using nth [of "n - 1"] assms by simp
  with assms have final: "theme (last it) = ''Final Day Highlights'' \<longleftrightarrow> 1 < n"
    by (auto simp: get_day_theme_def)
  have inner: "theme (it ! nat d) = themes ! nat (d mod 7)" if "0 < d" "d < n - 1" for d
    using nth [of d] that by (simp add: get_day_theme_def themes_def)
  show ?thesis using run len days first final inner by blast
qed

theorem itinerary_days_and_themes_witness:
  "(1::int) \<le> 1 \<and> (1::int) \<le> 30 \<and>
   (\<exists>it. create_itinerary_suggestions remdups [] 1 = Inr it \<and> int (length it) = 1 \<and>
      map day it = [1..1] \<and> theme (hd it) = ''Arrival & City Orientation'' \<and>
      theme (last it) \<noteq> ''Final Day Highlights'')"
  using itinerary_days_and_themes [of 1 remdups "[]"] by auto

section \<open>The city code of a city code\<close>











text \<open>One character gives one or two; only the sharp s gives two.\<close>

lemma length_uchar_upper:
  "length (uchar_upper d) = (if d = Latin (CHR 0xDF) then 2 else 1)"
  by (cases d) (auto simp: upper_char_def split: option.splits)


lemma length_uupper_ge: "length s \<le> length (uupper s)"
  by (induction s) (simp_all add: uupper_def length_uchar_upper)




































end
